theory Spec2Isabelle
  imports Complex_Main "HOL-Library.Multiset"
begin

section \<open>Python values shared by the modules\<close>

text \<open>
  A Python float is read as the real number it denotes; infinities and NaN are left out.
  Comparing two floats is exact.  Floating-point arithmetic rounds, so wherever a
  discrete result of the classifier depends on it (the product \<open>onset_time * sr\<close>, the
  quotient \<open>1/sr\<close>, numpy's \<open>abs\<close> and \<open>sum\<close>) the operation is taken from the
  environment with the value the machine computes, and is not replaced by the exact
  operation on reals.  Python's unbounded \<open>int\<close> is \<^typ>\<open>int\<close>.
\<close>

text \<open>
  The exception classes the code raises or catches.  All of them derive from Python's
  \<open>Exception\<close>, so an \<open>except Exception\<close> clause catches every value of type \<open>exn\<close>;
  \<open>FileNotFoundError\<close> is a subclass of \<open>OSError\<close>.  \<open>OtherException\<close> stands for any
  other subclass of \<open>Exception\<close> a library may raise.
\<close>

datatype exn_kind =
    ValueError | RuntimeError | FileNotFoundError | ImportError | OSError
  | ZeroDivisionError | IndexError | OtherException

datatype exn = Exn exn_kind string

fun exn_kind_of :: "exn \<Rightarrow> exn_kind" where
  "exn_kind_of (Exn k m) = k"

text \<open>\<open>str(e)\<close>: the message of an exception.\<close>

fun str_exn :: "exn \<Rightarrow> string" where
  "str_exn (Exn k m) = m"

text \<open>\<open>int(x)\<close> on a float truncates toward zero.\<close>

definition py_int :: "real \<Rightarrow> int" where
  "py_int x = (if 0 \<le> x then \<lfloor>x\<rfloor> else \<lceil>x\<rceil>)"

text \<open>
  \<open>xs[i:j]\<close> with step 1: a negative bound counts from the end, and both bounds are
  clamped to the length.
\<close>

definition slice_bound :: "nat \<Rightarrow> int \<Rightarrow> nat" where
  "slice_bound n k = (if k < 0 then nat (max 0 (k + int n)) else min (nat k) n)"

definition py_slice :: "'a list \<Rightarrow> int \<Rightarrow> int \<Rightarrow> 'a list" where
  "py_slice xs i j = take (slice_bound (length xs) j - slice_bound (length xs) i)
                          (drop (slice_bound (length xs) i) xs)"

text \<open>
  \<open>max(keys, key=f)\<close> over a non-empty iterable: the first element is the initial best,
  and a later element replaces it only when its key is strictly greater.
\<close>

fun py_max_loop :: "('a \<Rightarrow> real) \<Rightarrow> 'a \<Rightarrow> 'a list \<Rightarrow> 'a" where
  "py_max_loop f best [] = best"
| "py_max_loop f best (k # ks) = py_max_loop f (if f best < f k then k else best) ks"

fun py_max_key :: "('a \<Rightarrow> real) \<Rightarrow> 'a list \<Rightarrow> exn + 'a" where
  "py_max_key f [] = Inl (Exn ValueError ''max() arg is an empty sequence'')"
| "py_max_key f (k # ks) = Inr (py_max_loop f k ks)"

section \<open>drum\_classifier.py\<close>

datatype drum_type = Kick | Snare | Hihat

text \<open>
  A dictionary whose keys are exactly the three drum types, created with the keys in the
  order kick, snare, hihat: a total function on \<^typ>\<open>drum_type\<close> together with the
  fixed iteration order of its keys.
\<close>

definition drum_keys :: "drum_type list" where
  "drum_keys = [Kick, Snare, Hihat]"

definition dict_items :: "(drum_type \<Rightarrow> 'a) \<Rightarrow> (drum_type \<times> 'a) list" where
  "dict_items d = map (\<lambda>k. (k, d k)) drum_keys"

fun DRUM_MIDI_NOTES :: "drum_type \<Rightarrow> int" where
  "DRUM_MIDI_NOTES Kick = 36"
| "DRUM_MIDI_NOTES Snare = 38"
| "DRUM_MIDI_NOTES Hihat = 42"

text \<open>
  What the module takes from outside the repository: the file system, librosa and numpy.
  \<open>librosa_import\<close> is the outcome of \<open>import librosa\<close>; \<open>np_rfft\<close> and \<open>np_rfftfreq\<close>
  are numpy's \<open>fft.rfft\<close> and \<open>fft.rfftfreq\<close>; \<open>np_abs\<close> and \<open>np_sum\<close> are numpy's
  \<open>abs\<close> and \<open>sum\<close> on arrays, with the rounding of the array's floating-point type;
  \<open>float_mul\<close> and \<open>float_div\<close> are the product and the quotient of two Python floats
  as IEEE double arithmetic computes them; the last three fields are the librosa onset
  functions used by \<open>onset_detector.py\<close>.
\<close>

record dsp_api =
  path_exists :: "string \<Rightarrow> bool"
  librosa_import :: "exn + unit"
  librosa_load :: "string \<Rightarrow> exn + (real list \<times> int)"
  np_rfft :: "real list \<Rightarrow> exn + complex list"
  np_rfftfreq :: "nat \<Rightarrow> real \<Rightarrow> exn + real list"
  np_abs :: "complex list \<Rightarrow> real list"
  np_sum :: "real list \<Rightarrow> real"
  float_mul :: "real \<Rightarrow> real \<Rightarrow> real"
  float_div :: "real \<Rightarrow> real \<Rightarrow> real"
  onset_strength :: "real list \<Rightarrow> int \<Rightarrow> int \<Rightarrow> exn + real list"
  onset_detect :: "real list \<Rightarrow> int \<Rightarrow> int \<Rightarrow> bool \<Rightarrow> exn + nat list"
  frames_to_time :: "nat list \<Rightarrow> int \<Rightarrow> int \<Rightarrow> exn + real list"

text \<open>\<open>1/sr\<close> on a Python int.\<close>

definition py_recip :: "dsp_api \<Rightarrow> int \<Rightarrow> exn + real" where
  "py_recip api sr = (if sr = 0 then Inl (Exn ZeroDivisionError ''division by zero'')
                      else Inr (float_div api 1 (real_of_int sr)))"

text \<open>\<open>(freqs >= lo) & (freqs < hi)\<close>: the element-wise mask of a band.\<close>

definition band_mask :: "real list \<Rightarrow> real \<times> real \<Rightarrow> bool list" where
  "band_mask freqs band = map (\<lambda>f. fst band \<le> f \<and> f < snd band) freqs"

text \<open>
  \<open>magnitudes[mask]\<close>: boolean indexing raises \<open>IndexError\<close> unless the mask has the
  length of the array.
\<close>

definition mask_select :: "real list \<Rightarrow> bool list \<Rightarrow> exn + real list" where
  "mask_select ms bs =
     (if length bs \<noteq> length ms
      then Inl (Exn IndexError ''boolean index did not match indexed array'')
      else Inr (map fst (filter snd (zip ms bs))))"

text \<open>\<open>np.sum(magnitudes[mask])\<close> for the mask of a band.\<close>

definition band_energy ::
  "dsp_api \<Rightarrow> real list \<Rightarrow> real list \<Rightarrow> real \<times> real \<Rightarrow> exn + real" where
  "band_energy api magnitudes freqs band =
     (case mask_select magnitudes (band_mask freqs band) of
        Inl e \<Rightarrow> Inl e
      | Inr sel \<Rightarrow> Inr (np_sum api sel))"

definition kick_band :: "real \<times> real" where "kick_band = (20, 100)"
definition snare_band :: "real \<times> real" where "snare_band = (150, 250)"
definition hihat_band :: "real \<times> real" where "hihat_band = (5000, 10000)"

text \<open>
  The body of the \<open>try\<close> block of \<open>classify_drum_hit\<close> up to the \<open>energies\<close>
  dictionary (source lines 48 to 75).
\<close>

definition hit_energies ::
  "dsp_api \<Rightarrow> real list \<Rightarrow> int \<Rightarrow> int \<Rightarrow> int \<Rightarrow> exn + (drum_type \<Rightarrow> real)" where
  "hit_energies api y sr onset_sample window_size =
     (case librosa_import api of
        Inl e \<Rightarrow> Inl e
      | Inr _ \<Rightarrow>
     (let start_sample = max 0 (onset_sample - window_size div 2);
          end_sample = min (int (length y)) (onset_sample + window_size div 2);
          window = py_slice y start_sample end_sample
      in case np_rfft api window of
           Inl e \<Rightarrow> Inl e
         | Inr fft \<Rightarrow>
        (case py_recip api sr of
           Inl e \<Rightarrow> Inl e
         | Inr d \<Rightarrow>
        (case np_rfftfreq api (length window) d of
           Inl e \<Rightarrow> Inl e
         | Inr freqs \<Rightarrow>
        (let magnitudes = np_abs api fft
         in case band_energy api magnitudes freqs kick_band of
              Inl e \<Rightarrow> Inl e
            | Inr kick_energy \<Rightarrow>
           (case band_energy api magnitudes freqs snare_band of
              Inl e \<Rightarrow> Inl e
            | Inr snare_energy \<Rightarrow>
           (case band_energy api magnitudes freqs hihat_band of
              Inl e \<Rightarrow> Inl e
            | Inr hihat_energy \<Rightarrow>
              Inr (\<lambda>k. case k of Kick \<Rightarrow> kick_energy
                               | Snare \<Rightarrow> snare_energy
                               | Hihat \<Rightarrow> hihat_energy))))))))"

text \<open>The whole \<open>try\<close> block: the energies, then \<open>max(energies, key=energies.get)\<close>.\<close>

definition classify_drum_hit_try ::
  "dsp_api \<Rightarrow> real list \<Rightarrow> int \<Rightarrow> int \<Rightarrow> int \<Rightarrow> exn + drum_type" where
  "classify_drum_hit_try api y sr onset_sample window_size =
     (case hit_energies api y sr onset_sample window_size of
        Inl e \<Rightarrow> Inl e
      | Inr energies \<Rightarrow> py_max_key energies drum_keys)"

text \<open>
  \<open>classify_drum_hit\<close>: the \<open>try\<close> block with its \<open>except Exception\<close> handler, which logs
  a warning and returns \<open>'snare'\<close>.
\<close>

definition classify_drum_hit ::
  "dsp_api \<Rightarrow> real list \<Rightarrow> int \<Rightarrow> int \<Rightarrow> int \<Rightarrow> exn + drum_type" where
  "classify_drum_hit api y sr onset_sample window_size =
     (case classify_drum_hit_try api y sr onset_sample window_size of
        Inl e \<Rightarrow> Inr Snare
      | Inr drum_type \<Rightarrow> Inr drum_type)"

text \<open>
  The conversion of an onset time to a sample index in the loop of
  \<open>classify_drum_pattern\<close>: \<open>int(onset_time * sr)\<close>, where the product is the one
  floating-point arithmetic computes.
\<close>

definition onset_sample_index :: "dsp_api \<Rightarrow> real \<Rightarrow> int \<Rightarrow> int" where
  "onset_sample_index api onset_time sr = py_int (float_mul api onset_time (real_of_int sr))"

text \<open>
  The loop of \<open>classify_drum_pattern\<close> over \<open>onset_times\<close>, with the dictionary being
  filled as its accumulator.  \<open>classify_drum_hit\<close> is called with the default window of
  2048 samples.
\<close>

fun classify_loop ::
  "dsp_api \<Rightarrow> real list \<Rightarrow> int \<Rightarrow> (drum_type \<Rightarrow> real list) \<Rightarrow> real list
     \<Rightarrow> exn + (drum_type \<Rightarrow> real list)" where
  "classify_loop api y sr drum_pattern [] = Inr drum_pattern"
| "classify_loop api y sr drum_pattern (onset_time # rest) =
     (let onset_sample = onset_sample_index api onset_time sr
      in case classify_drum_hit api y sr onset_sample 2048 of
           Inl e \<Rightarrow> Inl e
         | Inr drum_type \<Rightarrow>
             classify_loop api y sr
               (drum_pattern(drum_type := drum_pattern drum_type @ [onset_time])) rest)"

text \<open>The \<open>try\<close> block of \<open>classify_drum_pattern\<close>.\<close>

definition classify_drum_pattern_try ::
  "dsp_api \<Rightarrow> string \<Rightarrow> real list \<Rightarrow> exn + (drum_type \<Rightarrow> real list)" where
  "classify_drum_pattern_try api audio_path onset_times =
     (case librosa_import api of
        Inl e \<Rightarrow> Inl e
      | Inr _ \<Rightarrow>
     (case librosa_load api audio_path of
        Inl e \<Rightarrow> Inl e
      | Inr (y, sr) \<Rightarrow> classify_loop api y sr (\<lambda>k. []) onset_times))"

definition classify_drum_pattern ::
  "dsp_api \<Rightarrow> string \<Rightarrow> real list \<Rightarrow> exn + (drum_type \<Rightarrow> real list)" where
  "classify_drum_pattern api audio_path onset_times =
     (if \<not> path_exists api audio_path
      then Inl (Exn FileNotFoundError (''Audio file not found: '' @ audio_path))
      else case classify_drum_pattern_try api audio_path onset_times of
             Inl e \<Rightarrow> Inl (Exn RuntimeError (''Failed to classify drums: '' @ str_exn e))
           | Inr drum_pattern \<Rightarrow> Inr drum_pattern)"

text \<open>The two nested loops of \<open>get_drum_midi_pattern\<close> that fill \<open>midi_pattern\<close>.\<close>

fun append_notes :: "(real \<times> int) list \<Rightarrow> int \<Rightarrow> real list \<Rightarrow> (real \<times> int) list" where
  "append_notes midi_pattern midi_note [] = midi_pattern"
| "append_notes midi_pattern midi_note (time # rest) =
     append_notes (midi_pattern @ [(time, midi_note)]) midi_note rest"

fun midi_loop ::
  "(real \<times> int) list \<Rightarrow> (drum_type \<times> real list) list \<Rightarrow> (real \<times> int) list" where
  "midi_loop midi_pattern [] = midi_pattern"
| "midi_loop midi_pattern ((drum_type, time_list) # items) =
     midi_loop (append_notes midi_pattern (DRUM_MIDI_NOTES drum_type) time_list) items"

text \<open>
  \<open>get_drum_midi_pattern\<close>: \<open>list.sort(key=...)\<close> is a stable sort by the key, as
  \<^const>\<open>sort_key\<close> is.
\<close>

definition get_drum_midi_pattern ::
  "dsp_api \<Rightarrow> string \<Rightarrow> real list \<Rightarrow> exn + (real \<times> int) list" where
  "get_drum_midi_pattern api audio_path onset_times =
     (case classify_drum_pattern api audio_path onset_times of
        Inl e \<Rightarrow> Inl e
      | Inr drum_pattern \<Rightarrow>
          Inr (sort_key fst (midi_loop [] (dict_items drum_pattern))))"

section \<open>onset\_detector.py\<close>

text \<open>
  \<open>onset_env[onset_frames]\<close>: indexing an array with an array of frame indices raises
  \<open>IndexError\<close> when an index is out of bounds.
\<close>

definition np_take :: "real list \<Rightarrow> nat list \<Rightarrow> exn + real list" where
  "np_take arr idx =
     (if list_all (\<lambda>i. i < length arr) idx
      then Inr (map (\<lambda>i. arr ! i) idx)
      else Inl (Exn IndexError ''index is out of bounds''))"

text \<open>The normalisation of the strengths (source lines 157 to 160).\<close>

definition normalize_strengths :: "real list \<Rightarrow> real list" where
  "normalize_strengths onset_strengths =
     (if length onset_strengths > 0
      then (let max_strength = Max (set onset_strengths)
            in if max_strength > 0
               then map (\<lambda>s. s / max_strength) onset_strengths
               else onset_strengths)
      else onset_strengths)"

definition detect_onsets_with_strength_try ::
  "dsp_api \<Rightarrow> string \<Rightarrow> int \<Rightarrow> exn + (real \<times> real) list" where
  "detect_onsets_with_strength_try api audio_path hop_length =
     (case librosa_import api of
        Inl e \<Rightarrow> Inl e
      | Inr _ \<Rightarrow>
     (case librosa_load api audio_path of
        Inl e \<Rightarrow> Inl e
      | Inr (y, sr) \<Rightarrow>
     (case onset_strength api y sr hop_length of
        Inl e \<Rightarrow> Inl e
      | Inr onset_env \<Rightarrow>
     (case onset_detect api onset_env sr hop_length True of
        Inl e \<Rightarrow> Inl e
      | Inr onset_frames \<Rightarrow>
     (case frames_to_time api onset_frames sr hop_length of
        Inl e \<Rightarrow> Inl e
      | Inr onset_times \<Rightarrow>
     (case np_take onset_env onset_frames of
        Inl e \<Rightarrow> Inl e
      | Inr onset_strengths \<Rightarrow>
          Inr (zip onset_times (normalize_strengths onset_strengths))))))))"

definition detect_onsets_with_strength ::
  "dsp_api \<Rightarrow> string \<Rightarrow> int \<Rightarrow> exn + (real \<times> real) list" where
  "detect_onsets_with_strength api audio_path hop_length =
     (if \<not> path_exists api audio_path
      then Inl (Exn FileNotFoundError (''Audio file not found: '' @ audio_path))
      else case detect_onsets_with_strength_try api audio_path hop_length of
             Inl e \<Rightarrow> Inl (Exn RuntimeError (''Failed to detect onsets: '' @ str_exn e))
           | Inr onsets_with_strength \<Rightarrow> Inr onsets_with_strength)"

definition filter_weak_onsets :: "(real \<times> real) list \<Rightarrow> real \<Rightarrow> real list" where
  "filter_weak_onsets onsets_with_strength min_strength =
     [time. (time, strength) \<leftarrow> onsets_with_strength, strength \<ge> min_strength]"

section \<open>The file system and the audio libraries\<close>

text \<open>
  A pydub \<open>AudioSegment\<close>, as far as the code reads it: \<open>len(audio)\<close> in milliseconds,
  \<open>audio.frame_rate\<close> and \<open>audio.channels\<close>.
\<close>

record audio_segment =
  len_ms :: nat
  frame_rate :: int
  channels :: int

text \<open>
  The operating system, pydub and Spleeter, over a state \<open>'w\<close> of the outside world.
  An operation that only reads takes the world; one that may change it also returns the
  new world.  \<open>from_file\<close> is \<open>from pydub import AudioSegment\<close> followed by
  \<open>AudioSegment.from_file\<close>; \<open>spleeter_separate\<close> is the import of Spleeter,
  \<open>Separator(model)\<close> and \<open>separate_to_file\<close>.  \<open>os_remove\<close> raises nothing but
  \<open>OSError\<close>, whose message is the \<open>Inl\<close> value.  The remaining fields are pure:
  path and string helpers, \<open>f"{x:.nf}"\<close> as \<open>format_float n x\<close>, \<open>str(n)\<close> and
  \<open>round(x, n)\<close>.
\<close>

record 'w os_api =
  os_path_exists :: "'w \<Rightarrow> string \<Rightarrow> bool"
  os_path_getsize :: "'w \<Rightarrow> string \<Rightarrow> exn + nat"
  os_makedirs :: "'w \<Rightarrow> string \<Rightarrow> (exn + unit) \<times> 'w"
  os_remove :: "'w \<Rightarrow> string \<Rightarrow> (string + unit) \<times> 'w"
  os_path_join :: "string \<Rightarrow> string \<Rightarrow> string"
  os_path_dirname :: "string \<Rightarrow> string"
  path_suffix :: "string \<Rightarrow> string"
  path_name :: "string \<Rightarrow> string"
  path_stem :: "string \<Rightarrow> string"
  str_lower :: "string \<Rightarrow> string"
  from_file :: "'w \<Rightarrow> string \<Rightarrow> exn + audio_segment"
  segment_slice :: "audio_segment \<Rightarrow> int \<Rightarrow> int \<Rightarrow> audio_segment"
  segment_export :: "'w \<Rightarrow> audio_segment \<Rightarrow> string \<Rightarrow> string \<Rightarrow> (exn + unit) \<times> 'w"
  uuid4_str :: "'w \<Rightarrow> string \<times> 'w"
  spleeter_separate ::
    "'w \<Rightarrow> string \<Rightarrow> string \<Rightarrow> string \<Rightarrow> string \<Rightarrow> string \<Rightarrow> (exn + unit) \<times> 'w"
  format_float :: "nat \<Rightarrow> real \<Rightarrow> string"
  str_int :: "int \<Rightarrow> string"
  round_ndigits :: "real \<Rightarrow> nat \<Rightarrow> real"

text \<open>\<open>s.lstrip('.')\<close> and \<open>sep.join(xs)\<close>.\<close>

definition lstrip_dot :: "string \<Rightarrow> string" where
  "lstrip_dot s = dropWhile (\<lambda>c. c = CHR ''.'') s"

fun str_join :: "string \<Rightarrow> string list \<Rightarrow> string" where
  "str_join sep [] = []"
| "str_join sep [x] = x"
| "str_join sep (x # y # ys) = x @ sep @ str_join sep (y # ys)"

section \<open>utils.py\<close>

definition trim_audio_try ::
  "'w os_api \<Rightarrow> 'w \<Rightarrow> string \<Rightarrow> string \<Rightarrow> real \<Rightarrow> real \<Rightarrow> string \<Rightarrow> (exn + string) \<times> 'w" where
  "trim_audio_try api w audio_path output_path start_time_seconds end_time_seconds fmt =
     (case from_file api w audio_path of
        Inl e \<Rightarrow> (Inl e, w)
      | Inr audio \<Rightarrow>
     (let audio_duration_ms = len_ms audio;
          audio_duration_seconds = real audio_duration_ms / 1000
      in if end_time_seconds > audio_duration_seconds
         then (Inl (Exn ValueError
                 (''End time '' @ format_float api 1 end_time_seconds
                  @ ''s exceeds audio duration ''
                  @ format_float api 1 audio_duration_seconds @ ''s'')), w)
         else
     (let start_time_ms = py_int (start_time_seconds * 1000);
          end_time_ms = py_int (end_time_seconds * 1000);
          trimmed_audio = segment_slice api audio start_time_ms end_time_ms
      in case os_makedirs api w (os_path_dirname api output_path) of
           (Inl e, w1) \<Rightarrow> (Inl e, w1)
         | (Inr _, w1) \<Rightarrow>
        (case segment_export api w1 trimmed_audio output_path fmt of
           (Inl e, w2) \<Rightarrow> (Inl e, w2)
         | (Inr _, w2) \<Rightarrow> (Inr output_path, w2)))))"

text \<open>
  \<open>trim_audio\<close>: the checks before the \<open>try\<close> block raise directly; whatever the
  \<open>try\<close> block raises goes through its two handlers, \<open>except ImportError\<close> and
  \<open>except Exception\<close>.
\<close>

definition trim_audio ::
  "'w os_api \<Rightarrow> 'w \<Rightarrow> string \<Rightarrow> string \<Rightarrow> real \<Rightarrow> real \<Rightarrow> string \<Rightarrow> (exn + string) \<times> 'w" where
  "trim_audio api w audio_path output_path start_time_seconds end_time_seconds fmt =
     (if \<not> os_path_exists api w audio_path
      then (Inl (Exn FileNotFoundError (''Audio file not found: '' @ audio_path)), w)
      else if start_time_seconds < 0
      then (Inl (Exn ValueError ''Start time cannot be negative''), w)
      else if end_time_seconds \<le> start_time_seconds
      then (Inl (Exn ValueError ''End time must be greater than start time''), w)
      else
     (let duration = end_time_seconds - start_time_seconds
      in if duration < 15
         then (Inl (Exn ValueError
                 (''Duration too short: '' @ format_float api 1 duration
                  @ ''s. Minimum is 15 seconds.'')), w)
         else if duration > 90
         then (Inl (Exn ValueError
                 (''Duration too long: '' @ format_float api 1 duration
                  @ ''s. Maximum is 90 seconds.'')), w)
         else
        (case trim_audio_try api w audio_path output_path
                start_time_seconds end_time_seconds fmt of
           (Inl e, w') \<Rightarrow>
             (if exn_kind_of e = ImportError
              then (Inl (Exn ImportError ''pydub is not installed. Run: pip install pydub''), w')
              else (Inl (Exn RuntimeError (''Failed to trim audio: '' @ str_exn e)), w'))
         | (Inr p, w') \<Rightarrow> (Inr p, w'))))"

text \<open>The dictionary returned by \<open>get_audio_info\<close>, with its five fixed keys.\<close>

record audio_info =
  duration_seconds :: real
  sample_rate :: int
  info_channels :: int
  info_format :: string
  file_size_mb :: real

definition get_audio_info_try :: "'w os_api \<Rightarrow> 'w \<Rightarrow> string \<Rightarrow> exn + audio_info" where
  "get_audio_info_try api w audio_path =
     (case from_file api w audio_path of
        Inl e \<Rightarrow> Inl e
      | Inr audio \<Rightarrow>
     (case os_path_getsize api w audio_path of
        Inl e \<Rightarrow> Inl e
      | Inr file_size_bytes \<Rightarrow>
     (let file_size = real file_size_bytes / (1024 * 1024);
          file_format = lstrip_dot (path_suffix api audio_path)
      in Inr \<lparr> duration_seconds = real (len_ms audio) / 1000,
               sample_rate = frame_rate audio,
               info_channels = channels audio,
               info_format = file_format,
               file_size_mb = round_ndigits api file_size 2 \<rparr>)))"

definition get_audio_info :: "'w os_api \<Rightarrow> 'w \<Rightarrow> string \<Rightarrow> exn + audio_info" where
  "get_audio_info api w audio_path =
     (if \<not> os_path_exists api w audio_path
      then Inl (Exn FileNotFoundError (''Audio file not found: '' @ audio_path))
      else case get_audio_info_try api w audio_path of
             Inl e \<Rightarrow> Inl (Exn RuntimeError (''Failed to get audio info: '' @ str_exn e))
           | Inr info \<Rightarrow> Inr info)"

definition validate_audio_file ::
  "'w os_api \<Rightarrow> 'w \<Rightarrow> string \<Rightarrow> int \<Rightarrow> string list option \<Rightarrow> exn + (bool \<times> string)" where
  "validate_audio_file api w audio_path max_size_mb allowed_formats_arg =
     (let allowed_formats =
            (case allowed_formats_arg of
               None \<Rightarrow> [''mp3'', ''wav'', ''flac'', ''m4a'', ''ogg'']
             | Some fs \<Rightarrow> fs)
      in if \<not> os_path_exists api w audio_path
         then Inr (False, ''File not found: '' @ audio_path)
         else
     (let file_ext = str_lower api (lstrip_dot (path_suffix api audio_path))
      in if file_ext \<notin> set allowed_formats
         then Inr (False, ''Unsupported format: .'' @ file_ext @ ''. Allowed formats: ''
                          @ str_join '', '' allowed_formats)
         else
     (case os_path_getsize api w audio_path of
        Inl e \<Rightarrow> Inl e
      | Inr file_size_bytes \<Rightarrow>
     (let file_size = real file_size_bytes / (1024 * 1024)
      in if file_size > real_of_int max_size_mb
         then Inr (False, ''File too large: '' @ format_float api 2 file_size
                          @ '' MB. Maximum size: '' @ str_int api max_size_mb @ '' MB'')
         else
     (case from_file api w audio_path of
        Inl e \<Rightarrow> Inr (False, ''Invalid audio file: '' @ str_exn e)
      | Inr audio \<Rightarrow>
          if len_ms audio = 0 then Inr (False, ''Audio file is empty'')
          else Inr (True, []))))))"

section \<open>stem\_separator.py\<close>

text \<open>The loop that verifies that every stem file was created.\<close>

fun verify_stems :: "'w os_api \<Rightarrow> 'w \<Rightarrow> (string \<times> string) list \<Rightarrow> exn + unit" where
  "verify_stems api w [] = Inr ()"
| "verify_stems api w ((stem_name, stem_path) # rest) =
     (if \<not> os_path_exists api w stem_path
      then Inl (Exn RuntimeError (''Failed to generate '' @ stem_name @ '' stem''))
      else verify_stems api w rest)"

definition separate_stems_try ::
  "'w os_api \<Rightarrow> 'w \<Rightarrow> string \<Rightarrow> string \<Rightarrow> string \<Rightarrow> string \<Rightarrow> string
     \<Rightarrow> (exn + (string \<times> string) list) \<times> 'w" where
  "separate_stems_try api w audio_path output_dir model codec bitrate =
     (case spleeter_separate api w model audio_path output_dir codec bitrate of
        (Inl e, w1) \<Rightarrow> (Inl e, w1)
      | (Inr _, w1) \<Rightarrow>
     (let audio_filename = path_stem api audio_path;
          stem_dir = os_path_join api output_dir audio_filename;
          stem_paths = [(''drums'', os_path_join api stem_dir (''drums.'' @ codec)),
                        (''bass'', os_path_join api stem_dir (''bass.'' @ codec)),
                        (''vocals'', os_path_join api stem_dir (''vocals.'' @ codec)),
                        (''other'', os_path_join api stem_dir (''other.'' @ codec))]
      in case verify_stems api w1 stem_paths of
           Inl e \<Rightarrow> (Inl e, w1)
         | Inr _ \<Rightarrow> (Inr stem_paths, w1)))"

definition separate_stems ::
  "'w os_api \<Rightarrow> 'w \<Rightarrow> string \<Rightarrow> string \<Rightarrow> string \<Rightarrow> string \<Rightarrow> string
     \<Rightarrow> (exn + (string \<times> string) list) \<times> 'w" where
  "separate_stems api w audio_path output_dir model codec bitrate =
     (if \<not> os_path_exists api w audio_path
      then (Inl (Exn FileNotFoundError (''Audio file not found: '' @ audio_path)), w)
      else case os_makedirs api w output_dir of
             (Inl e, w1) \<Rightarrow> (Inl e, w1)
           | (Inr _, w1) \<Rightarrow>
          (case separate_stems_try api w1 audio_path output_dir model codec bitrate of
             (Inl e, w2) \<Rightarrow>
               (if exn_kind_of e = ImportError
                then (Inl (Exn ImportError
                        ''Spleeter is not installed. Run: pip install spleeter''), w2)
                else (Inl (Exn RuntimeError (''Failed to separate stems: '' @ str_exn e)), w2))
           | (Inr stem_paths, w2) \<Rightarrow> (Inr stem_paths, w2)))"

section \<open>audio\_service.py\<close>

text \<open>
  The values stored in the \<open>metadata\<close> dictionary, and the result object.  The two
  dictionaries of a result are association lists in insertion order; an absent
  \<open>error\<close> is \<open>None\<close>.
\<close>

datatype meta_value = MStr string | MFloat real | MInt int | MBool bool

record AudioProcessingResult =
  success :: bool
  stem_paths :: "(string \<times> string) list"
  metadata :: "(string \<times> meta_value) list"
  error :: "string option"

text \<open>\<open>d or {}\<close> for an optional dictionary: \<open>None\<close> and the empty dictionary are falsy.\<close>

definition or_empty :: "'a list option \<Rightarrow> 'a list" where
  "or_empty d = (case d of None \<Rightarrow> [] | Some xs \<Rightarrow> if xs = [] then [] else xs)"

text \<open>The constructor \<open>AudioProcessingResult.__init__\<close> with its three optional arguments.\<close>

definition AudioProcessingResult_init ::
  "bool \<Rightarrow> (string \<times> string) list option \<Rightarrow> (string \<times> meta_value) list option
     \<Rightarrow> string option \<Rightarrow> AudioProcessingResult" where
  "AudioProcessingResult_init success_arg stem_paths_arg metadata_arg error_arg =
     \<lparr> success = success_arg,
       stem_paths = or_empty stem_paths_arg,
       metadata = or_empty metadata_arg,
       error = error_arg \<rparr>"

text \<open>
  Steps 4 and 5 of \<open>process_audio_snippet\<close> and its final \<open>return\<close> (source lines 158
  to 189): the metadata, the removal of the trimmed file guarded by
  \<open>except OSError\<close>, and the successful result.
\<close>

definition finish_snippet ::
  "'w os_api \<Rightarrow> 'w \<Rightarrow> string \<Rightarrow> real \<Rightarrow> real \<Rightarrow> bool \<Rightarrow> bool \<Rightarrow> string
     \<Rightarrow> audio_info \<Rightarrow> string \<Rightarrow> audio_info \<Rightarrow> (string \<times> string) list
     \<Rightarrow> AudioProcessingResult \<times> 'w" where
  "finish_snippet api w audio_path start_time_seconds end_time_seconds extract_stems
       cleanup_after snippet_id original_info trimmed_path trimmed_info stem_paths_dict =
     (let snippet_duration = duration_seconds trimmed_info;
          metadata_dict =
            [(''snippet_id'', MStr snippet_id),
             (''original_file'', MStr (path_name api audio_path)),
             (''original_duration_seconds'', MFloat (duration_seconds original_info)),
             (''snippet_duration_seconds'', MFloat snippet_duration),
             (''start_time'', MFloat start_time_seconds),
             (''end_time'', MFloat end_time_seconds),
             (''sample_rate'', MInt (sample_rate trimmed_info)),
             (''channels'', MInt (info_channels trimmed_info)),
             (''stems_extracted'', MBool extract_stems),
             (''num_stems'', MInt (int (length stem_paths_dict)))];
          w' = (if cleanup_after \<and> os_path_exists api w trimmed_path
                then snd (os_remove api w trimmed_path)
                else w)
      in (AudioProcessingResult_init True (Some stem_paths_dict) (Some metadata_dict) None, w'))"

text \<open>
  The outer \<open>try\<close> block of \<open>process_audio_snippet\<close>.  It ends in one of two ways: a
  \<open>return\<close> of a result (\<open>Inr\<close>) or an exception (\<open>Inl\<close>); in both cases the list
  \<open>temp_files\<close> as it stands at that moment and the world are returned with it.
\<close>

definition process_audio_snippet_try ::
  "'w os_api \<Rightarrow> 'w \<Rightarrow> string \<Rightarrow> real \<Rightarrow> real \<Rightarrow> string \<Rightarrow> bool \<Rightarrow> bool
     \<Rightarrow> (exn + AudioProcessingResult) \<times> string list \<times> 'w" where
  "process_audio_snippet_try api w audio_path start_time_seconds end_time_seconds
       output_base_dir extract_stems cleanup_after =
     (case validate_audio_file api w audio_path 50 None of
        Inl e \<Rightarrow> (Inl e, [], w)
      | Inr (is_valid, error_msg) \<Rightarrow>
     (if \<not> is_valid
      then (Inr (AudioProcessingResult_init False None None
                   (Some (''Validation failed: '' @ error_msg))), [], w)
      else
     (case get_audio_info api w audio_path of
        Inl e \<Rightarrow> (Inl e, [], w)
      | Inr original_info \<Rightarrow>
     (case uuid4_str api w of
        (uuid, w1) \<Rightarrow>
     (let snippet_id = take 8 uuid;
          trimmed_dir = os_path_join api output_base_dir ''trimmed''
      in case os_makedirs api w1 trimmed_dir of
           (Inl e, w2) \<Rightarrow> (Inl e, [], w2)
         | (Inr _, w2) \<Rightarrow>
     (case trim_audio api w2 audio_path
             (os_path_join api trimmed_dir (''snippet_'' @ snippet_id @ ''.wav''))
             start_time_seconds end_time_seconds ''wav'' of
        (Inl e, w3) \<Rightarrow>
          (if exn_kind_of e = ValueError
           then (Inr (AudioProcessingResult_init False None None
                        (Some (''Trimming failed: '' @ str_exn e))), [], w3)
           else (Inl e, [], w3))
      | (Inr trimmed_path, w3) \<Rightarrow>
     (let temp_files = [] @ [trimmed_path]
      in case get_audio_info api w3 trimmed_path of
           Inl e \<Rightarrow> (Inl e, temp_files, w3)
         | Inr trimmed_info \<Rightarrow>
     (if extract_stems
      then
        (let stems_dir = os_path_join api output_base_dir ''stems''
         in case os_makedirs api w3 stems_dir of
              (Inl e, w4) \<Rightarrow> (Inl e, temp_files, w4)
            | (Inr _, w4) \<Rightarrow>
           (case separate_stems api w4 trimmed_path stems_dir
                   ''spleeter:4stems'' ''wav'' ''128k'' of
              (Inl e, w5) \<Rightarrow>
                (Inr (AudioProcessingResult_init False None None
                        (Some (''Stem separation failed: '' @ str_exn e))), temp_files, w5)
            | (Inr stem_paths_dict, w5) \<Rightarrow>
                (case finish_snippet api w5 audio_path start_time_seconds end_time_seconds
                        extract_stems cleanup_after snippet_id original_info
                        trimmed_path trimmed_info stem_paths_dict of
                   (res, w6) \<Rightarrow> (Inr res, temp_files, w6))))
      else
        (case finish_snippet api w3 audio_path start_time_seconds end_time_seconds
                extract_stems cleanup_after snippet_id original_info
                trimmed_path trimmed_info [] of
           (res, w6) \<Rightarrow> (Inr res, temp_files, w6))))))))))"

text \<open>The clean-up loop of the outer handler: \<open>os.remove\<close> guarded by \<open>except OSError\<close>.\<close>

fun cleanup_temp_files :: "'w os_api \<Rightarrow> 'w \<Rightarrow> string list \<Rightarrow> 'w" where
  "cleanup_temp_files api w [] = w"
| "cleanup_temp_files api w (temp_file # rest) =
     cleanup_temp_files api
       (if os_path_exists api w temp_file then snd (os_remove api w temp_file) else w) rest"

text \<open>
  \<open>process_audio_snippet\<close>: the \<open>try\<close> block and its \<open>except Exception\<close> handler.  The
  result type keeps the possibility of a propagated exception.
\<close>

definition process_audio_snippet ::
  "'w os_api \<Rightarrow> 'w \<Rightarrow> string \<Rightarrow> real \<Rightarrow> real \<Rightarrow> string \<Rightarrow> bool \<Rightarrow> bool
     \<Rightarrow> (exn + AudioProcessingResult) \<times> 'w" where
  "process_audio_snippet api w audio_path start_time_seconds end_time_seconds
       output_base_dir extract_stems cleanup_after =
     (case process_audio_snippet_try api w audio_path start_time_seconds end_time_seconds
             output_base_dir extract_stems cleanup_after of
        (Inr res, temp_files, w') \<Rightarrow> (Inr res, w')
      | (Inl e, temp_files, w') \<Rightarrow>
          (let w'' = (if cleanup_after then cleanup_temp_files api w' temp_files else w')
           in (Inr (AudioProcessingResult_init False None None
                      (Some (''Processing error: '' @ str_exn e))), w'')))"

section \<open>Notions used in the statements\<close>

text \<open>The position of a drum type in the iteration order of the dictionaries.\<close>

fun drum_rank :: "drum_type \<Rightarrow> nat" where
  "drum_rank Kick = 0"
| "drum_rank Snare = 1"
| "drum_rank Hihat = 2"

text \<open>The frequency band of each class, in Hz, lower bound included, upper excluded.\<close>

fun band_of :: "drum_type \<Rightarrow> real \<times> real" where
  "band_of Kick = (20, 100)"
| "band_of Snare = (150, 250)"
| "band_of Hihat = (5000, 10000)"

text \<open>
  The magnitude sum of a band as the program computes it: numpy's sum of the
  magnitudes of the bins \<open>i\<close> whose frequency lies in \<open>[lo, hi)\<close>, taken in the order
  of the bins.
\<close>

definition band_magnitude_sum ::
  "dsp_api \<Rightarrow> real list \<Rightarrow> real list \<Rightarrow> real \<Rightarrow> real \<Rightarrow> real" where
  "band_magnitude_sum api freqs magnitudes lo hi =
     np_sum api (map (\<lambda>i. magnitudes ! i)
                     (filter (\<lambda>i. lo \<le> freqs ! i \<and> freqs ! i < hi) [0..<length freqs]))"

text \<open>
  The window of samples that \<open>classify_drum_hit\<close> analyses: \<open>window_size\<close> samples
  centred on the onset, clamped to the buffer.
\<close>

definition hit_window :: "real list \<Rightarrow> int \<Rightarrow> int \<Rightarrow> real list" where
  "hit_window y onset_sample window_size =
     py_slice y (max 0 (onset_sample - window_size div 2))
                (min (int (length y)) (onset_sample + window_size div 2))"

text \<open>
  The class that \<open>classify_drum_pattern\<close> gives the onset at time \<open>t\<close> of the buffer
  \<open>y\<close> with sample rate \<open>sr\<close>.
\<close>

definition hit_class :: "dsp_api \<Rightarrow> real list \<Rightarrow> int \<Rightarrow> real \<Rightarrow> drum_type \<Rightarrow> bool" where
  "hit_class api y sr t c \<longleftrightarrow>
     classify_drum_hit api y sr (onset_sample_index api t sr) 2048 = Inr c"

text \<open>The invariant of a result object.\<close>

definition result_invariant :: "AudioProcessingResult \<Rightarrow> bool" where
  "result_invariant res \<longleftrightarrow>
     (success res \<longrightarrow> error res = None) \<and>
     (\<not> success res \<longrightarrow>
        (\<exists>msg. error res = Some msg \<and> msg \<noteq> []) \<and> stem_paths res = [] \<and> metadata res = [])"

text \<open>
  The invariant together with the completeness of a successful result: all ten
  metadata entries, and the four stem paths exactly when stems were requested.
\<close>

definition complete_result :: "bool \<Rightarrow> AudioProcessingResult \<Rightarrow> bool" where
  "complete_result extract_stems res \<longleftrightarrow>
     result_invariant res \<and>
     (success res \<longrightarrow> length (metadata res) = 10
        \<and> (if extract_stems then length (stem_paths res) = 4 else stem_paths res = []))"

section \<open>Two example environments\<close>

text \<open>
  A signal-processing environment in which \<open>drums.wav\<close> holds the four samples
  \<open>1, 0, -1, 0\<close> at 800 Hz.  The spectrum is tabulated for this buffer (its one-sided
  DFT is \<open>0, 2, 0\<close>), for silence and for the empty window, on which numpy raises
  \<open>ValueError\<close>; the bin frequencies are \<open>k / (n d)\<close> for \<open>k = 0, ..., n div 2\<close>.
  Its arithmetic is exact, as floating-point arithmetic is on the products and sums
  taken below: their operands and results are small dyadic numbers.
\<close>

definition example_dsp :: dsp_api where
  "example_dsp =
     \<lparr> path_exists = (\<lambda>p. p = ''drums.wav''),
       librosa_import = Inr (),
       librosa_load = (\<lambda>p. Inr ([1, 0, -1, 0], 800)),
       np_rfft = (\<lambda>window.
          if window = [] then Inl (Exn ValueError ''Invalid number of FFT data points (0)'')
          else if window = [1, 0, -1, 0] then Inr [0, 2, 0]
          else if list_all (\<lambda>x. x = 0) window
          then Inr (replicate (length window div 2 + 1) 0)
          else Inl (Exn OtherException ''spectrum not tabulated'')),
       np_rfftfreq = (\<lambda>n d.
          if n = 0 then Inl (Exn ZeroDivisionError ''division by zero'')
          else Inr (map (\<lambda>k. real k / (real n * d)) [0..<n div 2 + 1])),
       np_abs = map cmod,
       np_sum = sum_list,
       float_mul = (\<lambda>a b. a * b),
       float_div = (\<lambda>a b. a / b),
       onset_strength = (\<lambda>y sr hop_length. Inr [0, 1/2, 0, 2, 1]),
       onset_detect = (\<lambda>onset_env sr hop_length backtrack. Inr [1, 3]),
       frames_to_time = (\<lambda>frames sr hop_length.
          Inr (map (\<lambda>f. real f * real_of_int hop_length / real_of_int sr) frames)) \<rparr>"

text \<open>
  An operating system whose world is the list of the paths that exist.  Every audio
  file is 20 seconds long, a directory can always be made, an export creates its file,
  Spleeter writes its four stems, and numbers are printed as \<open>#\<close>.
\<close>

definition example_os :: "string list os_api" where
  "example_os =
     \<lparr> os_path_exists = (\<lambda>w p. p \<in> set w),
       os_path_getsize = (\<lambda>w p.
          if p \<in> set w then Inr 1048576 else Inl (Exn FileNotFoundError p)),
       os_makedirs = (\<lambda>w p. (Inr (), w)),
       os_remove = (\<lambda>w p.
          if p \<in> set w then (Inr (), removeAll p w) else (Inl ''No such file'', w)),
       os_path_join = (\<lambda>a b. a @ ''/'' @ b),
       os_path_dirname = (\<lambda>p. p),
       path_suffix = (\<lambda>p. dropWhile (\<lambda>c. c \<noteq> CHR ''.'') p),
       path_name = (\<lambda>p. p),
       path_stem = (\<lambda>p. takeWhile (\<lambda>c. c \<noteq> CHR ''.'') p),
       str_lower = (\<lambda>s. s),
       from_file = (\<lambda>w p.
          if p \<in> set w then Inr \<lparr> len_ms = 20000, frame_rate = 44100, channels = 2 \<rparr>
          else Inl (Exn FileNotFoundError p)),
       segment_slice = (\<lambda>a i j. a \<lparr> len_ms := nat (min j (int (len_ms a)) - max 0 i) \<rparr>),
       segment_export = (\<lambda>w a p f. (Inr (), p # w)),
       uuid4_str = (\<lambda>w. (''0f8fad5b-d9cb-469f-a165-70867728950e'', w)),
       spleeter_separate = (\<lambda>w model audio_path output_dir codec bitrate.
          (Inr (), map (\<lambda>n. output_dir @ ''/'' @ takeWhile (\<lambda>c. c \<noteq> CHR ''.'') audio_path
                              @ ''/'' @ n @ ''.'' @ codec)
                       [''drums'', ''bass'', ''vocals'', ''other''] @ w)),
       format_float = (\<lambda>n x. ''#''),
       str_int = (\<lambda>i. ''#''),
       round_ndigits = (\<lambda>x n. x) \<rparr>"

section \<open>The drum classifier\<close>

lemma classify_drum_hit_returns:
  "\<exists>d. classify_drum_hit api y sr onset_sample window_size = Inr d"
  by (simp add: classify_drum_hit_def split: sum.split)

lemma classify_loop_filter:
  "classify_loop api y sr acc ts =
     Inr (\<lambda>c. acc c @ filter (\<lambda>t. hit_class api y sr t c) ts)"
proof (induction ts arbitrary: acc)
  case Nil
  show ?case by simp
next
  case (Cons t ts)
  obtain d where d: "classify_drum_hit api y sr (onset_sample_index api t sr) 2048 = Inr d"
    using classify_drum_hit_returns by blast
  show ?case
    by (simp add: d Cons.IH hit_class_def fun_eq_iff)
qed

lemma mset_three_filters:
  "mset (filter (\<lambda>t. hit_class api y sr t Kick) ts) +
   mset (filter (\<lambda>t. hit_class api y sr t Snare) ts) +
   mset (filter (\<lambda>t. hit_class api y sr t Hihat) ts) = mset ts"
proof (induction ts)
  case Nil
  show ?case by simp
next
  case (Cons t ts)
  obtain d where d: "classify_drum_hit api y sr (onset_sample_index api t sr) 2048 = Inr d"
    using classify_drum_hit_returns by blast
  show ?case using Cons.IH
    by (cases d) (simp_all add: hit_class_def d)
qed

lemma classify_drum_pattern_loaded:
  assumes "path_exists api audio_path" and "librosa_import api = Inr u"
    and "librosa_load api audio_path = Inr (y, sr)"
  shows "classify_drum_pattern api audio_path onset_times =
           Inr (\<lambda>c. filter (\<lambda>t. hit_class api y sr t c) onset_times)"
  using assms
  by (simp add: classify_drum_pattern_def classify_drum_pattern_try_def classify_loop_filter)

text \<open>
  C1.  Once the file exists and is loaded, \<open>classify_drum_pattern\<close> returns a pattern
  for every buffer and every list of onset times; the three lists of the pattern
  together hold exactly the onset times given, each as often as it was given, so their
  lengths add up to the number of onsets; and when the onset times are ascending, each
  of the three lists is ascending.
\<close>

theorem classify_drum_pattern_partitions_onsets:
  assumes "path_exists api audio_path" and "librosa_import api = Inr u"
    and "librosa_load api audio_path = Inr (y, sr)"
  shows "\<exists>p. classify_drum_pattern api audio_path onset_times = Inr p
           \<and> mset (p Kick) + mset (p Snare) + mset (p Hihat) = mset onset_times
           \<and> length (p Kick) + length (p Snare) + length (p Hihat) = length onset_times
           \<and> (sorted onset_times \<longrightarrow> sorted (p Kick) \<and> sorted (p Snare) \<and> sorted (p Hihat))"
proof -
  let ?p = "\<lambda>c. filter (\<lambda>t. hit_class api y sr t c) onset_times"
  have r: "classify_drum_pattern api audio_path onset_times = Inr ?p"
    using assms by (rule classify_drum_pattern_loaded)
  have m: "mset (?p Kick) + mset (?p Snare) + mset (?p Hihat) = mset onset_times"
    by (rule mset_three_filters)
  have l: "length (?p Kick) + length (?p Snare) + length (?p Hihat) = length onset_times"
    using arg_cong [OF m, of size] by (simp only: size_union size_mset)
  have s: "sorted onset_times \<longrightarrow> sorted (?p Kick) \<and> sorted (?p Snare) \<and> sorted (?p Hihat)"
    by (simp add: sorted_wrt_filter)
  show ?thesis using r m l s by blast
qed

lemma py_max_key_drum_keys:
  "py_max_key E drum_keys =
     Inr (if E Kick < E Snare then (if E Snare < E Hihat then Hihat else Snare)
          else (if E Kick < E Hihat then Hihat else Kick))"
  by (simp add: drum_keys_def)

lemma first_max_of_three:
  fixes E :: "drum_type \<Rightarrow> real"
  defines "d \<equiv> (if E Kick < E Snare then (if E Snare < E Hihat then Hihat else Snare)
                 else (if E Kick < E Hihat then Hihat else Kick))"
  shows "(\<forall>c. E c \<le> E d) \<and> (\<forall>c. E c = E d \<longrightarrow> drum_rank d \<le> drum_rank c)"
proof -
  have a: "\<And>P. (\<forall>c. P c) \<longleftrightarrow> P Kick \<and> P Snare \<and> P Hihat"
    by (metis drum_type.exhaust)
  show ?thesis unfolding a d_def by auto
qed

lemma mask_select_by_index:
  "length bs = length ms \<Longrightarrow>
     map fst (filter snd (zip ms bs)) = map (\<lambda>i. ms ! i) (filter (\<lambda>i. bs ! i) [0..<length ms])"
proof (induction bs ms rule: list_induct2)
  case Nil
  show ?case by simp
next
  case (Cons b bs m ms)
  have u: "[0..<length (m # ms)] = 0 # map Suc [0..<length ms]"
    by (simp add: upt_conv_Cons map_Suc_upt del: upt_Suc)
  show ?case
    unfolding u by (simp add: Cons.IH filter_map o_def)
qed

lemma band_energy_sum:
  assumes "length freqs = length magnitudes"
  shows "band_energy api magnitudes freqs (lo, hi)
           = Inr (band_magnitude_sum api freqs magnitudes lo hi)"
proof -
  have l: "length (band_mask freqs (lo, hi)) = length magnitudes"
    by (simp add: band_mask_def assms)
  have "map fst (filter snd (zip magnitudes (band_mask freqs (lo, hi))))
          = map (\<lambda>i. magnitudes ! i)
              (filter (\<lambda>i. band_mask freqs (lo, hi) ! i) [0..<length magnitudes])"
    using l by (rule mask_select_by_index)
  also have "filter (\<lambda>i. band_mask freqs (lo, hi) ! i) [0..<length magnitudes]
               = filter (\<lambda>i. lo \<le> freqs ! i \<and> freqs ! i < hi) [0..<length freqs]"
    unfolding assms [symmetric] by (rule filter_cong) (simp_all add: band_mask_def)
  finally show ?thesis
    by (simp add: band_energy_def mask_select_def band_magnitude_sum_def l)
qed

lemma hit_energies_band_sums:
  assumes "librosa_import api = Inr u" and "sr \<noteq> 0"
    and "np_rfft api (hit_window y onset_sample window_size) = Inr fft"
    and "np_rfftfreq api (length (hit_window y onset_sample window_size))
           (float_div api 1 (real_of_int sr)) = Inr freqs"
    and "length freqs = length (np_abs api fft)"
  shows "hit_energies api y sr onset_sample window_size =
           Inr (\<lambda>c. band_magnitude_sum api freqs (np_abs api fft)
                        (fst (band_of c)) (snd (band_of c)))"
proof -
  have "(\<lambda>k. case k of Kick \<Rightarrow> band_magnitude_sum api freqs (np_abs api fft) 20 100
                | Snare \<Rightarrow> band_magnitude_sum api freqs (np_abs api fft) 150 250
                | Hihat \<Rightarrow> band_magnitude_sum api freqs (np_abs api fft) 5000 10000)
        = (\<lambda>c. band_magnitude_sum api freqs (np_abs api fft)
                   (fst (band_of c)) (snd (band_of c)))"
    by (auto simp: fun_eq_iff split: drum_type.split)
  then show ?thesis
    using assms
    by (simp add: hit_energies_def hit_window_def py_recip_def Let_def band_energy_sum
        kick_band_def snare_band_def hihat_band_def)
qed

text \<open>
  C2.  Whenever the spectrum of the window is computed (librosa is importable, the
  sample rate is not zero, and numpy returns the spectrum and as many bin frequencies
  as magnitudes), \<open>classify_drum_hit\<close> returns a class whose band magnitude sum, as
  numpy computes it over kick [20,100), snare [150,250) and hihat [5000,10000) Hz, is
  the largest of the three computed sums; among classes whose computed sums are equal
  and largest it returns the first in the order kick, snare, hihat; so a window whose
  three sums are all zero is classified as kick.
\<close>

theorem classify_drum_hit_first_largest_band:
  assumes "librosa_import api = Inr u" and "sr \<noteq> 0"
    and "np_rfft api (hit_window y onset_sample window_size) = Inr fft"
    and "np_rfftfreq api (length (hit_window y onset_sample window_size))
           (float_div api 1 (real_of_int sr)) = Inr freqs"
    and "length freqs = length (np_abs api fft)"
    and "S = (\<lambda>c. band_magnitude_sum api freqs (np_abs api fft)
                     (fst (band_of c)) (snd (band_of c)))"
  shows "hit_energies api y sr onset_sample window_size = Inr S
         \<and> (\<exists>d. classify_drum_hit api y sr onset_sample window_size = Inr d
               \<and> (\<forall>c. S c \<le> S d)
               \<and> (\<forall>c. S c = S d \<longrightarrow> drum_rank d \<le> drum_rank c)
               \<and> ((\<forall>c. S c = 0) \<longrightarrow> d = Kick))"
proof -
  let ?d = "if S Kick < S Snare then (if S Snare < S Hihat then Hihat else Snare)
            else (if S Kick < S Hihat then Hihat else Kick)"
  have e: "hit_energies api y sr onset_sample window_size = Inr S"
    unfolding assms(6) using assms(1-5) by (rule hit_energies_band_sums)
  have r: "classify_drum_hit api y sr onset_sample window_size = Inr ?d"
    by (simp add: classify_drum_hit_def classify_drum_hit_try_def e py_max_key_drum_keys)
  have m: "(\<forall>c. S c \<le> S ?d) \<and> (\<forall>c. S c = S ?d \<longrightarrow> drum_rank ?d \<le> drum_rank c)"
    by (rule first_max_of_three)
  have z: "(\<forall>c. S c = 0) \<longrightarrow> ?d = Kick"
    by simp
  show ?thesis using e r m z by blast
qed

text \<open>
  C3, as the code has it.  Once the file is loaded, \<open>classify_drum_pattern\<close> puts each
  onset time \<open>t\<close> into the list of the class that \<open>classify_drum_hit\<close> returns at the
  sample index \<open>int(t * sr)\<close>, which is the computed floating-point product of \<open>t\<close>
  and \<open>sr\<close> truncated toward zero: its floor when the computed product is not
  negative, its ceiling otherwise.
\<close>

theorem classify_drum_pattern_truncates_sample_index:
  assumes "path_exists api audio_path" and "librosa_import api = Inr u"
    and "librosa_load api audio_path = Inr (y, sr)"
  shows "\<exists>p. classify_drum_pattern api audio_path onset_times = Inr p
           \<and> (\<forall>c. p c = filter (\<lambda>t. classify_drum_hit api y sr (onset_sample_index api t sr) 2048
                                      = Inr c) onset_times)
           \<and> (\<forall>t. (0 \<le> float_mul api t (real_of_int sr)
                       \<longrightarrow> onset_sample_index api t sr = \<lfloor>float_mul api t (real_of_int sr)\<rfloor>)
                  \<and> (float_mul api t (real_of_int sr) < 0
                       \<longrightarrow> onset_sample_index api t sr = \<lceil>float_mul api t (real_of_int sr)\<rceil>))"
  using classify_drum_pattern_loaded [OF assms, of onset_times]
  by (simp add: hit_class_def onset_sample_index_def py_int_def)

text \<open>
  C4.  \<open>classify_drum_hit\<close> always returns a class and never raises, and whenever its
  analysis raises, whatever the exception, the class returned is snare.
\<close>

theorem classify_drum_hit_falls_back_to_snare:
  "(\<exists>d. classify_drum_hit api y sr onset_sample window_size = Inr d)
   \<and> (\<forall>e. classify_drum_hit_try api y sr onset_sample window_size = Inl e
          \<longrightarrow> classify_drum_hit api y sr onset_sample window_size = Inr Snare)"
  by (simp add: classify_drum_hit_def split: sum.split)

lemma append_notes_eq:
  "append_notes acc n ts = acc @ map (\<lambda>t. (t, n)) ts"
  by (induction ts arbitrary: acc) simp_all

lemma midi_loop_eq:
  "midi_loop acc items =
     acc @ concat (map (\<lambda>(d, ts). map (\<lambda>t. (t, DRUM_MIDI_NOTES d)) ts) items)"
  by (induction items arbitrary: acc) (auto simp: append_notes_eq)

text \<open>
  C7.  For every pattern that the classification returns, \<open>get_drum_midi_pattern\<close>
  returns a list of (time, note) pairs that is sorted ascending by time and holds, for
  each time of the kick list a pair with note 36, for each time of the snare list a pair
  with note 38 and for each time of the hihat list a pair with note 42, and nothing
  else: every note is the table value of the class of its time and is one of 36, 38, 42.
\<close>

theorem get_drum_midi_pattern_sorted_notes:
  assumes "classify_drum_pattern api audio_path onset_times = Inr p"
  shows "\<exists>mp. get_drum_midi_pattern api audio_path onset_times = Inr mp
           \<and> sorted (map fst mp)
           \<and> mset mp = mset (map (\<lambda>t. (t, 36)) (p Kick)) + mset (map (\<lambda>t. (t, 38)) (p Snare))
                        + mset (map (\<lambda>t. (t, 42)) (p Hihat))
           \<and> (\<forall>(t, n) \<in> set mp. n \<in> {36, 38, 42}
                 \<and> (\<exists>c. t \<in> set (p c) \<and> n = DRUM_MIDI_NOTES c))"
proof -
  let ?flat = "midi_loop [] (dict_items p)"
  let ?mp = "sort_key fst ?flat"
  have f: "?flat = map (\<lambda>t. (t, 36)) (p Kick) @ map (\<lambda>t. (t, 38)) (p Snare)
                   @ map (\<lambda>t. (t, 42)) (p Hihat)"
    by (simp add: midi_loop_eq dict_items_def drum_keys_def)
  have r: "get_drum_midi_pattern api audio_path onset_times = Inr ?mp"
    by (simp add: get_drum_midi_pattern_def assms)
  have s: "sorted (map fst ?mp)"
    by (rule sorted_sort_key)
  have m: "mset ?mp = mset (map (\<lambda>t. (t, 36)) (p Kick)) + mset (map (\<lambda>t. (t, 38)) (p Snare))
                        + mset (map (\<lambda>t. (t, 42)) (p Hihat))"
    by (simp add: f)
  have "set ?mp = set ?flat"
    by simp
  then have n: "\<forall>(t, n) \<in> set ?mp. n \<in> {36, 38, 42}
                 \<and> (\<exists>c. t \<in> set (p c) \<and> n = DRUM_MIDI_NOTES c)"
    unfolding f by (auto intro: DRUM_MIDI_NOTES.simps[symmetric])
  show ?thesis using r s m n by blast
qed

section \<open>The classifier on the example buffer\<close>

lemma upt_0_3: "[0..<3] = [0, 1, 2]"
  by code_simp

lemma hit_window_small:
  fixes k :: int
  assumes "0 \<le> k" and "k \<le> 1020"
  shows "hit_window [a, b, c, d] k 2048 = [a, b, c, d]"
  using assms by (simp add: hit_window_def py_slice_def slice_bound_def)

lemma example_freqs:
  "np_rfftfreq example_dsp 4 (float_div example_dsp 1 (real_of_int 800)) = Inr [0, 200, 400]"
  by (simp add: example_dsp_def upt_0_3)

lemma example_abs: "np_abs example_dsp [0, 2, 0] = [0, 2, 0]"
  by (simp add: example_dsp_def)

lemma example_spectrum:
  assumes "0 \<le> k" and "k \<le> 1020"
  shows "hit_energies example_dsp [1, 0, -1, 0] 800 k 2048
           = Inr (\<lambda>c. band_magnitude_sum example_dsp [0, 200, 400]
                        (np_abs example_dsp [0, 2, 0]) (fst (band_of c)) (snd (band_of c)))"
proof -
  have w: "hit_window [1, 0, -1, 0] k 2048 = [1, 0, -1, 0]"
    using assms by (rule hit_window_small)
  have l: "length [1, 0, -1, 0 :: real] = 4"
    by simp
  have h1: "librosa_import example_dsp = Inr ()"
    by (simp add: example_dsp_def)
  have h2: "(800 :: int) \<noteq> 0"
    by simp
  have h3: "np_rfft example_dsp (hit_window [1, 0, -1, 0] k 2048) = Inr [0, 2, 0]"
    unfolding w by (simp add: example_dsp_def)
  have h4: "np_rfftfreq example_dsp (length (hit_window [1, 0, -1, 0] k 2048))
              (float_div example_dsp 1 (real_of_int 800)) = Inr [0, 200, 400]"
    unfolding w l by (rule example_freqs)
  have h5: "length [0, 200, 400 :: real] = length (np_abs example_dsp [0, 2, 0])"
    by (simp add: example_abs)
  show ?thesis
    using h1 h2 h3 h4 h5 by (rule hit_energies_band_sums)
qed

lemma example_hit_snare:
  assumes "0 \<le> k" and "k \<le> 1020"
  shows "classify_drum_hit example_dsp [1, 0, -1, 0] 800 k 2048 = Inr Snare"
proof -
  have e: "hit_energies example_dsp [1, 0, -1, 0] 800 k 2048
             = Inr (\<lambda>c. band_magnitude_sum example_dsp [0, 200, 400] [0, 2, 0]
                          (fst (band_of c)) (snd (band_of c)))"
    using example_spectrum [OF assms]
    by (simp add: example_abs)
  show ?thesis
    by (simp add: classify_drum_hit_def classify_drum_hit_try_def e py_max_key_drum_keys
        band_magnitude_sum_def upt_0_3) (simp add: example_dsp_def)
qed

lemma example_pattern:
  "classify_drum_pattern example_dsp ''drums.wav'' [1 / 512, 0]
     = Inr (\<lambda>c. if c = Snare then [1 / 512, 0] else [])"
proof -
  have a: "classify_drum_hit example_dsp [1, 0, -1, 0] 800 (onset_sample_index example_dsp (1 / 512) 800) 2048
             = Inr Snare"
    by (rule example_hit_snare) (simp_all add: onset_sample_index_def py_int_def example_dsp_def)
  have b: "classify_drum_hit example_dsp [1, 0, -1, 0] 800 (onset_sample_index example_dsp 0 800) 2048
             = Inr Snare"
    by (rule example_hit_snare) (simp_all add: onset_sample_index_def py_int_def example_dsp_def)
  have "classify_drum_pattern example_dsp ''drums.wav'' [1 / 512, 0]
          = Inr (\<lambda>c. filter (\<lambda>t. hit_class example_dsp [1, 0, -1, 0] 800 t c) [1 / 512, 0])"
    by (rule classify_drum_pattern_loaded [where u = "()"]) (simp_all add: example_dsp_def)
  then show ?thesis
    by (simp add: hit_class_def a b fun_eq_iff)
qed

theorem classify_drum_pattern_partitions_onsets_witness:
  "path_exists example_dsp ''drums.wav''
   \<and> librosa_import example_dsp = Inr ()
   \<and> librosa_load example_dsp ''drums.wav'' = Inr ([1, 0, -1, 0], 800)
   \<and> sorted [0, 1 / 1024, 1 / 512 :: real]
   \<and> (\<exists>p. classify_drum_pattern example_dsp ''drums.wav'' [0, 1 / 1024, 1 / 512] = Inr p
          \<and> mset (p Kick) + mset (p Snare) + mset (p Hihat) = mset [0, 1 / 1024, 1 / 512]
          \<and> length (p Kick) + length (p Snare) + length (p Hihat) = 3
          \<and> sorted (p Kick) \<and> sorted (p Snare) \<and> sorted (p Hihat))"
proof -
  have h1: "path_exists example_dsp ''drums.wav''"
    by (simp add: example_dsp_def)
  have h2: "librosa_import example_dsp = Inr ()"
    by (simp add: example_dsp_def)
  have h3: "librosa_load example_dsp ''drums.wav'' = Inr ([1, 0, -1, 0], 800)"
    by (simp add: example_dsp_def)
  have h4: "sorted [0, 1 / 1024, 1 / 512 :: real]"
    by simp
  show ?thesis
    using h1 h2 h3 h4
      classify_drum_pattern_partitions_onsets [OF h1 h2 h3, of "[0, 1 / 1024, 1 / 512]"]
    by auto
qed

theorem classify_drum_hit_first_largest_band_witness:
  "librosa_import example_dsp = Inr ()
   \<and> (800 :: int) \<noteq> 0
   \<and> np_rfft example_dsp (hit_window [1, 0, -1, 0] 2 2048) = Inr [0, 2, 0]
   \<and> np_rfftfreq example_dsp (length (hit_window [1, 0, -1, 0] 2 2048))
         (float_div example_dsp 1 (real_of_int 800)) = Inr [0, 200, 400]
   \<and> length [0, 200, 400 :: real] = length (np_abs example_dsp [0, 2, 0])
   \<and> band_magnitude_sum example_dsp [0, 200, 400] (np_abs example_dsp [0, 2, 0]) 20 100 = 0
   \<and> band_magnitude_sum example_dsp [0, 200, 400] (np_abs example_dsp [0, 2, 0]) 150 250 = 2
   \<and> band_magnitude_sum example_dsp [0, 200, 400] (np_abs example_dsp [0, 2, 0]) 5000 10000 = 0
   \<and> classify_drum_hit example_dsp [1, 0, -1, 0] 800 2 2048 = Inr Snare
   \<and> classify_drum_hit example_dsp [0, 0, 0, 0] 800 2 2048 = Inr Kick"
proof -
  let ?S = "\<lambda>c. band_magnitude_sum example_dsp [0, 200, 400] (np_abs example_dsp [0, 2, 0])
                   (fst (band_of c)) (snd (band_of c))"
  let ?Z = "\<lambda>c. band_magnitude_sum example_dsp [0, 200, 400] (np_abs example_dsp [0, 0, 0])
                   (fst (band_of c)) (snd (band_of c))"
  have w: "hit_window [1, 0, -1, 0] 2 2048 = [1, 0, -1, 0 :: real]"
    by (rule hit_window_small) simp_all
  have w0: "hit_window [0, 0, 0, 0] 2 2048 = [0, 0, 0, 0 :: real]"
    by (rule hit_window_small) simp_all
  have l: "length [1, 0, -1, 0 :: real] = 4" and l0: "length [0, 0, 0, 0 :: real] = 4"
    by simp_all
  have h1: "librosa_import example_dsp = Inr ()"
    by (simp add: example_dsp_def)
  have h2: "(800 :: int) \<noteq> 0"
    by simp
  have h3: "np_rfft example_dsp (hit_window [1, 0, -1, 0] 2 2048) = Inr [0, 2, 0]"
    unfolding w by (simp add: example_dsp_def)
  have h4: "np_rfftfreq example_dsp (length (hit_window [1, 0, -1, 0] 2 2048))
              (float_div example_dsp 1 (real_of_int 800)) = Inr [0, 200, 400]"
    unfolding w l by (rule example_freqs)
  have h5: "length [0, 200, 400 :: real] = length (np_abs example_dsp [0, 2, 0])"
    by (simp add: example_abs)
  have g3: "np_rfft example_dsp (hit_window [0, 0, 0, 0] 2 2048) = Inr [0, 0, 0]"
    unfolding w0 by (simp add: example_dsp_def numeral_3_eq_3)
  have g4: "np_rfftfreq example_dsp (length (hit_window [0, 0, 0, 0] 2 2048))
              (float_div example_dsp 1 (real_of_int 800)) = Inr [0, 200, 400]"
    unfolding w0 l0 by (rule example_freqs)
  have g5: "length [0, 200, 400 :: real] = length (np_abs example_dsp [0, 0, 0])"
    by (simp add: example_dsp_def)
  have sk: "?S Kick = 0" and ss: "?S Snare = 2" and sh: "?S Hihat = 0"
    by (simp_all add: band_magnitude_sum_def upt_0_3 example_abs) (simp_all add: example_dsp_def)
  have z: "\<forall>c. ?Z c = 0"
  proof
    fix c show "?Z c = 0"
      by (cases c) (simp_all add: band_magnitude_sum_def upt_0_3, simp_all add: example_dsp_def)
  qed
  obtain d where d: "classify_drum_hit example_dsp [1, 0, -1, 0] 800 2 2048 = Inr d"
    and m: "\<forall>c. ?S c \<le> ?S d"
    using classify_drum_hit_first_largest_band [OF h1 h2 h3 h4 h5 refl] by blast
  have "d = Snare"
    using m [rule_format, of Snare] sk ss sh by (cases d) simp_all
  with d have r1: "classify_drum_hit example_dsp [1, 0, -1, 0] 800 2 2048 = Inr Snare"
    by simp
  obtain d0 where d0: "classify_drum_hit example_dsp [0, 0, 0, 0] 800 2 2048 = Inr d0"
    and k: "(\<forall>c. ?Z c = 0) \<longrightarrow> d0 = Kick"
    using classify_drum_hit_first_largest_band [OF h1 h2 g3 g4 g5 refl] by blast
  from k z have "d0 = Kick" by blast
  with d0 have r2: "classify_drum_hit example_dsp [0, 0, 0, 0] 800 2 2048 = Inr Kick"
    by simp
  from sk ss sh have b: "band_magnitude_sum example_dsp [0, 200, 400] (np_abs example_dsp [0, 2, 0]) 20 100 = 0"
    "band_magnitude_sum example_dsp [0, 200, 400] (np_abs example_dsp [0, 2, 0]) 150 250 = 2"
    "band_magnitude_sum example_dsp [0, 200, 400] (np_abs example_dsp [0, 2, 0]) 5000 10000 = 0"
    by simp_all
  show ?thesis
    using h1 h2 h3 h4 h5 b r1 r2 by blast
qed

text \<open>
  C3, as the spec states it, fails.  The onset time \<open>1/8192\<close> s and the rate 8000 Hz
  are floats whose product, 0.9765625, floating-point arithmetic computes exactly: the
  code passes the index 0, and the nearest integer is 1.
\<close>

theorem onset_sample_index_not_rounded:
  "float_mul example_dsp (1 / 8192) (real_of_int 8000) = 125 / 128
   \<and> onset_sample_index example_dsp (1 / 8192) 8000 = 0
   \<and> round (float_mul example_dsp (1 / 8192) (real_of_int 8000)) = 1
   \<and> onset_sample_index example_dsp (1 / 8192) 8000
        \<noteq> round (float_mul example_dsp (1 / 8192) (real_of_int 8000))"
  by (simp add: onset_sample_index_def py_int_def round_def example_dsp_def)

theorem classify_drum_pattern_truncates_sample_index_witness:
  "path_exists example_dsp ''drums.wav''
   \<and> librosa_import example_dsp = Inr ()
   \<and> librosa_load example_dsp ''drums.wav'' = Inr ([1, 0, -1, 0], 800)
   \<and> float_mul example_dsp (1 / 512) (real_of_int 800) = 25 / 16
   \<and> (\<exists>p. classify_drum_pattern example_dsp ''drums.wav'' [1 / 512, 0] = Inr p
          \<and> (\<forall>c. p c = filter (\<lambda>t. classify_drum_hit example_dsp [1, 0, -1, 0] 800
                                       (onset_sample_index example_dsp t 800) 2048 = Inr c)
                              [1 / 512, 0]))
   \<and> onset_sample_index example_dsp (1 / 512) 800 = 1"
proof -
  have h1: "path_exists example_dsp ''drums.wav''"
    by (simp add: example_dsp_def)
  have h2: "librosa_import example_dsp = Inr ()"
    by (simp add: example_dsp_def)
  have h3: "librosa_load example_dsp ''drums.wav'' = Inr ([1, 0, -1, 0], 800)"
    by (simp add: example_dsp_def)
  have v: "float_mul example_dsp (1 / 512) (real_of_int 800) = 25 / 16"
    by (simp add: example_dsp_def)
  have f: "\<lfloor>25 / 16 :: real\<rfloor> = 1"
    by simp
  obtain p where a: "classify_drum_pattern example_dsp ''drums.wav'' [1 / 512, 0] = Inr p"
    and b: "\<forall>c. p c = filter (\<lambda>t. classify_drum_hit example_dsp [1, 0, -1, 0] 800
                                       (onset_sample_index example_dsp t 800) 2048 = Inr c)
                              [1 / 512, 0]"
    and c: "0 \<le> float_mul example_dsp (1 / 512) (real_of_int 800)
              \<longrightarrow> onset_sample_index example_dsp (1 / 512) 800
                    = \<lfloor>float_mul example_dsp (1 / 512) (real_of_int 800)\<rfloor>"
    using classify_drum_pattern_truncates_sample_index [OF h1 h2 h3, of "[1 / 512, 0]"]
    by blast
  from c have "onset_sample_index example_dsp (1 / 512) 800 = 1"
    unfolding v f by simp
  with h1 h2 h3 v a b show ?thesis by blast
qed

theorem classify_drum_hit_falls_back_to_snare_witness:
  "classify_drum_hit_try example_dsp [] 800 0 2048
     = Inl (Exn ValueError ''Invalid number of FFT data points (0)'')
   \<and> classify_drum_hit example_dsp [] 800 0 2048 = Inr Snare"
proof -
  have t: "classify_drum_hit_try example_dsp [] 800 0 2048
             = Inl (Exn ValueError ''Invalid number of FFT data points (0)'')"
    by (simp add: classify_drum_hit_try_def hit_energies_def py_slice_def example_dsp_def)
  show ?thesis
    using t classify_drum_hit_falls_back_to_snare [of example_dsp "[]" 800 0 2048]
    by blast
qed

theorem get_drum_midi_pattern_sorted_notes_witness:
  "classify_drum_pattern example_dsp ''drums.wav'' [1 / 512, 0]
     = Inr (\<lambda>c. if c = Snare then [1 / 512, 0] else [])
   \<and> (\<exists>mp. get_drum_midi_pattern example_dsp ''drums.wav'' [1 / 512, 0] = Inr mp
          \<and> sorted (map fst mp)
          \<and> mset mp = {#(1 / 512, 38), (0, 38)#}
          \<and> (\<forall>(t, n) \<in> set mp. n \<in> {36, 38, 42}))"
proof -
  obtain mp where a: "get_drum_midi_pattern example_dsp ''drums.wav'' [1 / 512, 0] = Inr mp"
    and b: "sorted (map fst mp)"
    and c: "mset mp = mset (map (\<lambda>t. (t, 38)) [1 / 512, 0 :: real])"
    and d: "\<forall>(t, n) \<in> set mp. n \<in> {36, 38, 42}"
    using get_drum_midi_pattern_sorted_notes [OF example_pattern] by fastforce
  from c have "mset mp = {#(1 / 512, 38), (0, 38)#}"
    by simp
  with a b d example_pattern show ?thesis by blast
qed

section \<open>The onset detector\<close>

lemma filter_weak_onsets_eq:
  "filter_weak_onsets evs m = map fst (filter (\<lambda>e. m \<le> snd e) evs)"
  by (induction evs) (auto simp: filter_weak_onsets_def)

text \<open>
  C8.  \<open>filter_weak_onsets\<close> returns, in the order of the input, the times of exactly
  the events whose strength is at least \<open>min_strength\<close>: an event strictly below the
  threshold is left out, one equal to it is kept.  At the threshold 0, the least
  strength an event can have, the events kept are the events given, unchanged, and the
  result is the list of their times.
\<close>

theorem filter_weak_onsets_keeps_strong:
  "filter_weak_onsets evs m = map fst (filter (\<lambda>e. m \<le> snd e) evs)
   \<and> (\<forall>t s. filter_weak_onsets [(t, s)] m = (if s < m then [] else [t]))
   \<and> ((\<forall>e \<in> set evs. 0 \<le> snd e) \<longrightarrow>
         filter (\<lambda>e. 0 \<le> snd e) evs = evs \<and> filter_weak_onsets evs 0 = map fst evs)"
proof -
  have a: "filter_weak_onsets evs m = map fst (filter (\<lambda>e. m \<le> snd e) evs)"
    by (rule filter_weak_onsets_eq)
  have b: "\<forall>t s. filter_weak_onsets [(t, s)] m = (if s < m then [] else [t])"
    by (simp add: filter_weak_onsets_def)
  have c: "(\<forall>e \<in> set evs. 0 \<le> snd e) \<longrightarrow>
             filter (\<lambda>e. 0 \<le> snd e) evs = evs \<and> filter_weak_onsets evs 0 = map fst evs"
    by (simp add: filter_weak_onsets_eq)
  show ?thesis using a b c by blast
qed

theorem filter_weak_onsets_keeps_strong_witness:
  "0 \<le> snd (0 :: real, 1 :: real) \<and> 0 \<le> snd (1 / 2 :: real, 0 :: real)
   \<and> 0 \<le> snd (1 :: real, 3 / 10 :: real)
   \<and> filter_weak_onsets [(0, 1), (1 / 2, 0), (1, 3 / 10)] 0 = [0, 1 / 2, 1]
   \<and> filter_weak_onsets [(0, 1), (1 / 2, 0), (1, 3 / 10)] (3 / 10) = [0, 1]"
  using filter_weak_onsets_keeps_strong [of "[(0, 1), (1 / 2, 0), (1, 3 / 10)]" 0]
    filter_weak_onsets_keeps_strong [of "[(0, 1), (1 / 2, 0), (1, 3 / 10)]" "3 / 10"]
  by simp

lemma np_take_in_range:
  assumes "\<forall>i \<in> set idx. i < length arr"
  shows "np_take arr idx = Inr (map (\<lambda>i. arr ! i) idx)"
  using assms by (simp add: np_take_def list_all_iff)

lemma length_normalize_strengths: "length (normalize_strengths xs) = length xs"
  by (simp add: normalize_strengths_def Let_def)

lemma normalize_positive:
  assumes "xs \<noteq> []" and "0 < Max (set xs)"
  shows "normalize_strengths xs = map (\<lambda>s. s / Max (set xs)) xs"
  using assms by (simp add: normalize_strengths_def)

lemma normalize_not_positive:
  assumes "\<not> 0 < Max (set xs)"
  shows "normalize_strengths xs = xs"
  using assms by (simp add: normalize_strengths_def)

lemma detect_onsets_with_strength_loaded:
  assumes "path_exists api audio_path" and "librosa_import api = Inr u"
    and "librosa_load api audio_path = Inr (y, sr)"
    and "onset_strength api y sr hop_length = Inr onset_env"
    and "onset_detect api onset_env sr hop_length True = Inr onset_frames"
    and "frames_to_time api onset_frames sr hop_length = Inr onset_times"
    and "\<forall>i \<in> set onset_frames. i < length onset_env"
  shows "detect_onsets_with_strength api audio_path hop_length =
           Inr (zip onset_times (normalize_strengths (map (\<lambda>i. onset_env ! i) onset_frames)))"
  using assms
  by (simp add: detect_onsets_with_strength_def detect_onsets_with_strength_try_def
      np_take_in_range)

text \<open>
  C9.  In a run of \<open>detect_onsets_with_strength\<close> in which librosa returns a
  non-negative envelope, frames inside it and one time per frame, the result pairs the
  times with the strengths, and with \<open>raw\<close> the envelope values at the onset frames and
  \<open>M\<close> their maximum: when \<open>M\<close> is positive every strength is its raw value divided by
  \<open>M\<close>, lies between 0 and 1, and is exactly 1 at every onset whose raw value is \<open>M\<close>,
  of which there is one; when \<open>M\<close> is 0 the strengths are the raw values, all 0.
\<close>

theorem detect_onsets_with_strength_normalised:
  assumes "path_exists api audio_path" and "librosa_import api = Inr u"
    and "librosa_load api audio_path = Inr (y, sr)"
    and "onset_strength api y sr hop_length = Inr onset_env"
    and "onset_detect api onset_env sr hop_length True = Inr onset_frames"
    and "frames_to_time api onset_frames sr hop_length = Inr onset_times"
    and "length onset_times = length onset_frames"
    and "\<forall>i \<in> set onset_frames. i < length onset_env"
    and "\<forall>x \<in> set onset_env. 0 \<le> x"
    and "raw = map (\<lambda>i. onset_env ! i) onset_frames"
    and "M = Max (set raw)"
  shows "\<exists>evs. detect_onsets_with_strength api audio_path hop_length = Inr evs
           \<and> map fst evs = onset_times
           \<and> length evs = length raw
           \<and> (raw \<noteq> [] \<longrightarrow>
                (0 < M \<longrightarrow> map snd evs = map (\<lambda>r. r / M) raw
                          \<and> (\<forall>s \<in> set (map snd evs). 0 \<le> s \<and> s \<le> 1)
                          \<and> (\<forall>k < length raw. raw ! k = M \<longrightarrow> snd (evs ! k) = 1)
                          \<and> (\<exists>k < length raw. raw ! k = M))
              \<and> (M = 0 \<longrightarrow> map snd evs = raw \<and> (\<forall>s \<in> set (map snd evs). s = 0)))"
proof -
  let ?evs = "zip onset_times (normalize_strengths raw)"
  have r: "detect_onsets_with_strength api audio_path hop_length = Inr ?evs"
    unfolding assms(10) using assms(1-6,8) by (rule detect_onsets_with_strength_loaded)
  have len: "length (normalize_strengths raw) = length onset_times"
    by (simp add: length_normalize_strengths assms(7,10))
  have f: "map fst ?evs = onset_times"
    using len by simp
  have s: "map snd ?evs = normalize_strengths raw"
    using len by simp
  have l: "length ?evs = length raw"
    using len by (simp add: length_normalize_strengths)
  have nonneg: "\<forall>x \<in> set raw. 0 \<le> x"
    using assms(8,9) by (auto simp: assms(10))
  have p: "raw \<noteq> [] \<longrightarrow>
             (0 < M \<longrightarrow> map snd ?evs = map (\<lambda>r. r / M) raw
                       \<and> (\<forall>s \<in> set (map snd ?evs). 0 \<le> s \<and> s \<le> 1)
                       \<and> (\<forall>k < length raw. raw ! k = M \<longrightarrow> snd (?evs ! k) = 1)
                       \<and> (\<exists>k < length raw. raw ! k = M))"
  proof (intro impI)
    assume ne: "raw \<noteq> []" and pos: "0 < M"
    have n: "normalize_strengths raw = map (\<lambda>r. r / M) raw"
      unfolding assms(11) using ne pos [unfolded assms(11)] by (rule normalize_positive)
    have le: "\<forall>x \<in> set raw. x \<le> M"
      unfolding assms(11) by simp
    have c1: "map snd ?evs = map (\<lambda>r. r / M) raw"
      using s unfolding n .
    have c2: "\<forall>s \<in> set (map snd ?evs). 0 \<le> s \<and> s \<le> 1"
      unfolding c1 using nonneg le pos by (auto simp: divide_le_eq)
    have c3: "\<forall>k < length raw. raw ! k = M \<longrightarrow> snd (?evs ! k) = 1"
    proof (intro allI impI)
      fix k assume k: "k < length raw" and m: "raw ! k = M"
      have "snd (?evs ! k) = map snd ?evs ! k"
        using k l by simp
      also have "\<dots> = raw ! k / M"
        unfolding c1 using k by simp
      also have "\<dots> = 1"
        using m pos by simp
      finally show "snd (?evs ! k) = 1" .
    qed
    have "M \<in> set raw"
      unfolding assms(11) using ne by (intro Max_in) simp_all
    then have c4: "\<exists>k < length raw. raw ! k = M"
      by (simp add: in_set_conv_nth)
    show "map snd ?evs = map (\<lambda>r. r / M) raw
            \<and> (\<forall>s \<in> set (map snd ?evs). 0 \<le> s \<and> s \<le> 1)
            \<and> (\<forall>k < length raw. raw ! k = M \<longrightarrow> snd (?evs ! k) = 1)
            \<and> (\<exists>k < length raw. raw ! k = M)"
      using c1 c2 c3 c4 by blast
  qed
  have z: "raw \<noteq> [] \<longrightarrow> (M = 0 \<longrightarrow> map snd ?evs = raw \<and> (\<forall>s \<in> set (map snd ?evs). s = 0))"
  proof (intro impI)
    assume ne: "raw \<noteq> []" and zero: "M = 0"
    have n: "normalize_strengths raw = raw"
      using zero by (intro normalize_not_positive) (simp add: assms(11))
    have le: "\<forall>x \<in> set raw. x \<le> M"
      unfolding assms(11) by simp
    have "\<forall>x \<in> set raw. x = 0"
      using le nonneg zero by fastforce
    moreover have "map snd ?evs = raw"
      using s unfolding n .
    ultimately show "map snd ?evs = raw \<and> (\<forall>s \<in> set (map snd ?evs). s = 0)"
      by simp
  qed
  show ?thesis using r f l p z by blast
qed

theorem detect_onsets_with_strength_normalised_witness:
  "path_exists example_dsp ''drums.wav''
   \<and> librosa_load example_dsp ''drums.wav'' = Inr ([1, 0, -1, 0], 800)
   \<and> onset_strength example_dsp [1, 0, -1, 0] 800 512 = Inr [0, 1 / 2, 0, 2, 1]
   \<and> onset_detect example_dsp [0, 1 / 2, 0, 2, 1] 800 512 True = Inr [1, 3]
   \<and> frames_to_time example_dsp [1, 3] 800 512 = Inr [16 / 25, 48 / 25]
   \<and> (1 :: nat) < length [0, 1 / 2, 0, 2, 1 :: real]
   \<and> (3 :: nat) < length [0, 1 / 2, 0, 2, 1 :: real]
   \<and> (0 :: real) \<le> 1 / 2 \<and> (0 :: real) \<le> 2 \<and> (0 :: real) \<le> 1
   \<and> Max (set [1 / 2, 2 :: real]) = 2
   \<and> (\<exists>evs. detect_onsets_with_strength example_dsp ''drums.wav'' 512 = Inr evs
          \<and> map fst evs = [16 / 25, 48 / 25]
          \<and> map snd evs = [1 / 4, 1])"
proof -
  have h1: "path_exists example_dsp ''drums.wav''"
    by (simp add: example_dsp_def)
  have h2: "librosa_import example_dsp = Inr ()"
    by (simp add: example_dsp_def)
  have h3: "librosa_load example_dsp ''drums.wav'' = Inr ([1, 0, -1, 0], 800)"
    by (simp add: example_dsp_def)
  have h4: "onset_strength example_dsp [1, 0, -1, 0] 800 512 = Inr [0, 1 / 2, 0, 2, 1]"
    by (simp add: example_dsp_def)
  have h5: "onset_detect example_dsp [0, 1 / 2, 0, 2, 1] 800 512 True = Inr [1, 3]"
    by (simp add: example_dsp_def)
  have h6: "frames_to_time example_dsp [1, 3] 800 512 = Inr [16 / 25, 48 / 25]"
    by (simp add: example_dsp_def)
  have h7: "length [16 / 25, 48 / 25 :: real] = length [1, 3 :: nat]"
    by simp
  have h8: "\<forall>i \<in> set [1, 3 :: nat]. i < length [0, 1 / 2, 0, 2, 1 :: real]"
    by simp
  have h9: "\<forall>x \<in> set [0, 1 / 2, 0, 2, 1 :: real]. 0 \<le> x"
    by simp
  have raw: "[1 / 2, 2 :: real] = map (\<lambda>i. [0, 1 / 2, 0, 2, 1] ! i) [1, 3]"
    by (simp add: numeral_3_eq_3)
  have m: "Max (set [1 / 2, 2 :: real]) = 2"
    by simp
  have "\<exists>evs. detect_onsets_with_strength example_dsp ''drums.wav'' 512 = Inr evs
          \<and> map fst evs = [16 / 25, 48 / 25]
          \<and> map snd evs = [1 / 4, 1]"
    using detect_onsets_with_strength_normalised
            [OF h1 h2 h3 h4 h5 h6 h7 h8 h9 raw m [symmetric]]
    by auto
  with h1 h3 h4 h5 h6 m show ?thesis by simp
qed

section \<open>The orchestrator\<close>

lemma or_empty_Some [simp]: "or_empty (Some xs) = xs"
  by (simp add: or_empty_def)

lemma or_empty_None [simp]: "or_empty None = []"
  by (simp add: or_empty_def)

lemma failure_result:
  "AudioProcessingResult_init False None None (Some msg)
     = \<lparr> success = False, stem_paths = [], metadata = [], error = Some msg \<rparr>"
  by (simp add: AudioProcessingResult_init_def)

lemma finish_snippet_result:
  assumes "finish_snippet api w audio_path s e extract_stems cleanup_after snippet_id
             original_info trimmed_path trimmed_info sp = (res, w')"
  shows "success res \<and> error res = None \<and> stem_paths res = sp \<and> length (metadata res) = 10"
  using assms by (auto simp: finish_snippet_def AudioProcessingResult_init_def Let_def)

lemma separate_stems_try_length:
  assumes "separate_stems_try api w audio_path output_dir model codec bitrate = (Inr sp, w')"
  shows "length sp = 4"
  using assms
  by (auto simp: separate_stems_try_def Let_def split: prod.splits sum.splits)

lemma separate_stems_length:
  assumes "separate_stems api w audio_path output_dir model codec bitrate = (Inr sp, w')"
  shows "length sp = 4"
  using assms separate_stems_try_length
  by (fastforce simp: separate_stems_def split: prod.splits sum.splits if_splits)

lemma complete_failure:
  "msg \<noteq> [] \<Longrightarrow>
     complete_result x (AudioProcessingResult_init False None None (Some msg))"
  by (simp add: complete_result_def result_invariant_def failure_result)

lemma complete_finish:
  assumes "finish_snippet api w audio_path s e extract_stems cleanup_after snippet_id
             original_info trimmed_path trimmed_info sp = (res, w')"
    and "if extract_stems then length sp = 4 else sp = []"
  shows "complete_result extract_stems res"
  using finish_snippet_result [OF assms(1)] assms(2)
  by (simp add: complete_result_def result_invariant_def)

lemma process_audio_snippet_try_complete:
  assumes "process_audio_snippet_try api w audio_path s e out extract_stems cleanup_after
             = (Inr res, tf, w')"
  shows "complete_result extract_stems res"
proof (cases extract_stems)
  case True
  show ?thesis
    using assms True
    by (auto simp: process_audio_snippet_try_def Let_def
        split: sum.splits prod.splits if_splits
        intro!: complete_failure
        dest: separate_stems_length
        intro: complete_finish [where extract_stems = True, simplified])
next
  case False
  show ?thesis
    using assms False
    by (auto simp: process_audio_snippet_try_def Let_def
        split: sum.splits prod.splits if_splits
        intro!: complete_failure
        intro: complete_finish [where extract_stems = False, simplified])
qed

lemma process_audio_snippet_cases:
  "(\<exists>res tf w'. process_audio_snippet_try api w audio_path s e out x c = (Inr res, tf, w')
        \<and> process_audio_snippet api w audio_path s e out x c = (Inr res, w'))
   \<or> (\<exists>ex tf w' w''. process_audio_snippet_try api w audio_path s e out x c = (Inl ex, tf, w')
        \<and> process_audio_snippet api w audio_path s e out x c
            = (Inr (AudioProcessingResult_init False None None
                      (Some (''Processing error: '' @ str_exn ex))), w''))"
proof -
  obtain r tf w' where t: "process_audio_snippet_try api w audio_path s e out x c = (r, tf, w')"
    by (metis prod_cases3)
  show ?thesis
    by (cases r) (simp_all add: t process_audio_snippet_def Let_def)
qed

lemma process_audio_snippet_complete:
  "\<exists>res w'. process_audio_snippet api w audio_path s e out x c = (Inr res, w')
     \<and> complete_result x res"
  using process_audio_snippet_cases [of api w audio_path s e out x c]
  by (auto dest: process_audio_snippet_try_complete intro!: complete_failure)

text \<open>
  C6.  For every environment and every input, \<open>process_audio_snippet\<close> returns a result
  and propagates no exception.  Whatever the \<open>try\<close> block raises becomes the failure
  result whose error is \<open>Processing error:\<close> followed by the message; every failure
  result carries a non-empty error; and a success result is complete: it has all ten
  metadata entries, and the four stem paths when stems were requested.
\<close>

theorem process_audio_snippet_never_raises:
  "\<exists>res w'. process_audio_snippet api w audio_path s e out x c = (Inr res, w')
     \<and> (\<forall>ex tf w1. process_audio_snippet_try api w audio_path s e out x c = (Inl ex, tf, w1)
           \<longrightarrow> res = \<lparr> success = False, stem_paths = [], metadata = [],
                        error = Some (''Processing error: '' @ str_exn ex) \<rparr>)
     \<and> (\<not> success res \<longrightarrow> (\<exists>msg. error res = Some msg \<and> msg \<noteq> []))
     \<and> (success res \<longrightarrow> length (metadata res) = 10
           \<and> (if x then length (stem_paths res) = 4 else stem_paths res = []))"
proof -
  obtain res w' where r: "process_audio_snippet api w audio_path s e out x c = (Inr res, w')"
    and k: "complete_result x res"
    using process_audio_snippet_complete [of api w audio_path s e out x c] by blast
  have a: "\<forall>ex tf w1. process_audio_snippet_try api w audio_path s e out x c = (Inl ex, tf, w1)
             \<longrightarrow> res = \<lparr> success = False, stem_paths = [], metadata = [],
                          error = Some (''Processing error: '' @ str_exn ex) \<rparr>"
    using r by (auto simp: process_audio_snippet_def Let_def failure_result)
  show ?thesis
    using r k a by (auto simp: complete_result_def result_invariant_def)
qed

text \<open>
  C10.  Every result that \<open>process_audio_snippet\<close> returns satisfies: if \<open>success\<close> is
  true then \<open>error\<close> is \<open>None\<close>; if \<open>success\<close> is false then \<open>error\<close> is a non-empty
  string and \<open>stem_paths\<close> and \<open>metadata\<close> are both empty.
\<close>

theorem process_audio_snippet_result_invariant:
  assumes "process_audio_snippet api w audio_path s e out x c = (r, w')"
  shows "\<exists>res. r = Inr res
           \<and> (success res \<longrightarrow> error res = None)
           \<and> (\<not> success res \<longrightarrow> (\<exists>msg. error res = Some msg \<and> msg \<noteq> [])
                 \<and> stem_paths res = [] \<and> metadata res = [])"
  using assms process_audio_snippet_complete [of api w audio_path s e out x c]
  by (auto simp: complete_result_def result_invariant_def)

section \<open>The orchestrator on the example file system\<close>

lemma example_validate:
  "validate_audio_file example_os [''song.wav''] ''song.wav'' 50 None = Inr (True, [])"
  by (simp add: validate_audio_file_def example_os_def lstrip_dot_def)

lemma example_info:
  "p \<in> set w \<Longrightarrow> dropWhile (\<lambda>c. c \<noteq> CHR ''.'') p = ''.wav'' \<Longrightarrow>
     get_audio_info example_os w p
       = Inr \<lparr> duration_seconds = 20, sample_rate = 44100, info_channels = 2,
               info_format = ''wav'', file_size_mb = 1 \<rparr>"
  by (simp add: get_audio_info_def get_audio_info_try_def example_os_def lstrip_dot_def)

lemma example_uuid:
  "uuid4_str example_os w = (''0f8fad5b-d9cb-469f-a165-70867728950e'', w)"
  by (simp add: example_os_def)

lemma example_makedirs: "os_makedirs example_os w p = (Inr (), w)"
  by (simp add: example_os_def)

lemma example_trimmed_path:
  "os_path_join example_os (os_path_join example_os ''out'' ''trimmed'')
     (''snippet_'' @ take 8 ''0f8fad5b-d9cb-469f-a165-70867728950e'' @ ''.wav'')
     = ''out/trimmed/snippet_0f8fad5b.wav''"
  by (simp add: example_os_def)

lemma trim_audio_end_exceeds:
  assumes "os_path_exists api w audio_path"
    and "0 \<le> s" and "15 \<le> e - s" and "e - s \<le> 90"
    and "from_file api w audio_path = Inr audio"
    and "real (len_ms audio) / 1000 < e"
  shows "trim_audio api w audio_path output_path s e fmt
           = (Inl (Exn RuntimeError
                (''Failed to trim audio: End time '' @ format_float api 1 e
                 @ ''s exceeds audio duration ''
                 @ format_float api 1 (real (len_ms audio) / 1000) @ ''s'')), w)"
  using assms by (simp add: trim_audio_def trim_audio_try_def Let_def)

lemma example_trim_beyond:
  assumes "0 \<le> s" and "15 \<le> e - s" and "e - s \<le> 90" and "20 < e"
  shows "trim_audio example_os [''song.wav''] ''song.wav'' output_path s e ''wav''
           = (Inl (Exn RuntimeError
                ''Failed to trim audio: End time #s exceeds audio duration #s''),
              [''song.wav''])"
proof -
  let ?audio = "\<lparr> len_ms = 20000, frame_rate = 44100, channels = 2 \<rparr>"
  have "trim_audio example_os [''song.wav''] ''song.wav'' output_path s e ''wav''
          = (Inl (Exn RuntimeError
                (''Failed to trim audio: End time '' @ format_float example_os 1 e
                 @ ''s exceeds audio duration ''
                 @ format_float example_os 1 (real (len_ms ?audio) / 1000) @ ''s'')),
             [''song.wav''])"
    using assms by (intro trim_audio_end_exceeds) (simp_all add: example_os_def)
  then show ?thesis by (simp add: example_os_def)
qed

lemma example_try_beyond:
  assumes "0 \<le> s" and "15 \<le> e - s" and "e - s \<le> 90" and "20 < e"
  shows "process_audio_snippet_try example_os [''song.wav''] ''song.wav'' s e ''out'' x c
           = (Inl (Exn RuntimeError
                ''Failed to trim audio: End time #s exceeds audio duration #s''),
              [], [''song.wav''])"
  by (simp add: process_audio_snippet_try_def example_validate example_info example_uuid
      example_makedirs example_trimmed_path example_trim_beyond [OF assms]
      Let_def del: take_Cons_numeral append.simps)

text \<open>
  C5, on the code.  The file \<open>song.wav\<close> is 20 seconds long and the range from 0 to
  30 seconds passes the checks on the range.  The \<open>ValueError\<close> for the end beyond the
  duration is raised inside the \<open>try\<close> block of \<open>trim_audio\<close>, whose
  \<open>except Exception\<close> handler turns it into a \<open>RuntimeError\<close>; the orchestrator's
  \<open>except ValueError\<close> does not catch it, and the result is the generic
  \<open>Processing error\<close>, not \<open>Trimming failed\<close>.
\<close>

theorem end_beyond_duration_is_processing_error:
  "trim_audio example_os [''song.wav''] ''song.wav'' ''out/trimmed/snippet_0f8fad5b.wav''
       0 30 ''wav''
     = (Inl (Exn RuntimeError
          ''Failed to trim audio: End time #s exceeds audio duration #s''), [''song.wav''])
   \<and> process_audio_snippet example_os [''song.wav''] ''song.wav'' 0 30 ''out'' True True
     = (Inr \<lparr> success = False, stem_paths = [], metadata = [],
              error = Some ''Processing error: Failed to trim audio: End time #s exceeds audio duration #s'' \<rparr>,
        [''song.wav''])"
proof -
  have t: "process_audio_snippet_try example_os [''song.wav''] ''song.wav'' 0 30 ''out'' True True
             = (Inl (Exn RuntimeError
                  ''Failed to trim audio: End time #s exceeds audio duration #s''),
                [], [''song.wav''])"
    by (rule example_try_beyond) simp_all
  have a: "trim_audio example_os [''song.wav''] ''song.wav''
             ''out/trimmed/snippet_0f8fad5b.wav'' 0 30 ''wav''
           = (Inl (Exn RuntimeError
                ''Failed to trim audio: End time #s exceeds audio duration #s''),
              [''song.wav''])"
    by (rule example_trim_beyond) simp_all
  have b: "process_audio_snippet example_os [''song.wav''] ''song.wav'' 0 30 ''out'' True True
     = (Inr \<lparr> success = False, stem_paths = [], metadata = [],
              error = Some ''Processing error: Failed to trim audio: End time #s exceeds audio duration #s'' \<rparr>,
        [''song.wav''])"
    by (simp add: process_audio_snippet_def t failure_result)
  show ?thesis using a b by blast
qed

text \<open>
  The sibling check on the range, made before the \<open>try\<close> block, does reach the
  orchestrator as a \<open>ValueError\<close> and gives \<open>Trimming failed\<close>.
\<close>

lemma example_too_short_is_trimming_failed:
  "process_audio_snippet example_os [''song.wav''] ''song.wav'' 0 10 ''out'' True True
     = (Inr \<lparr> success = False, stem_paths = [], metadata = [],
              error = Some ''Trimming failed: Duration too short: #s. Minimum is 15 seconds.'' \<rparr>,
        [''song.wav''])"
proof -
  have t: "trim_audio example_os [''song.wav''] ''song.wav''
             ''out/trimmed/snippet_0f8fad5b.wav'' 0 10 ''wav''
           = (Inl (Exn ValueError ''Duration too short: #s. Minimum is 15 seconds.''),
              [''song.wav''])"
    by (simp add: trim_audio_def example_os_def)
  show ?thesis
    by (simp add: process_audio_snippet_def process_audio_snippet_try_def example_validate
        example_info example_uuid example_makedirs example_trimmed_path t failure_result
        Let_def del: take_Cons_numeral append.simps)
qed

theorem process_audio_snippet_never_raises_witness:
  "process_audio_snippet_try example_os [''song.wav''] ''song.wav'' 5 95 ''out'' False True
     = (Inl (Exn RuntimeError
          ''Failed to trim audio: End time #s exceeds audio duration #s''), [], [''song.wav''])
   \<and> (\<exists>w'. process_audio_snippet example_os [''song.wav''] ''song.wav'' 5 95 ''out'' False True
          = (Inr \<lparr> success = False, stem_paths = [], metadata = [],
                   error = Some ''Processing error: Failed to trim audio: End time #s exceeds audio duration #s'' \<rparr>,
             w'))"
proof -
  have t: "process_audio_snippet_try example_os [''song.wav''] ''song.wav'' 5 95 ''out'' False True
             = (Inl (Exn RuntimeError
                  ''Failed to trim audio: End time #s exceeds audio duration #s''),
                [], [''song.wav''])"
    by (rule example_try_beyond) simp_all
  obtain res w' where r: "process_audio_snippet example_os [''song.wav''] ''song.wav'' 5 95
                            ''out'' False True = (Inr res, w')"
    and a: "\<forall>ex tf w1. process_audio_snippet_try example_os [''song.wav''] ''song.wav'' 5 95
                          ''out'' False True = (Inl ex, tf, w1)
              \<longrightarrow> res = \<lparr> success = False, stem_paths = [], metadata = [],
                           error = Some (''Processing error: '' @ str_exn ex) \<rparr>"
    using process_audio_snippet_never_raises
            [of example_os "[''song.wav'']" "''song.wav''" 5 95 "''out''" False True]
    by blast
  from a t have "res = \<lparr> success = False, stem_paths = [], metadata = [],
      error = Some ''Processing error: Failed to trim audio: End time #s exceeds audio duration #s'' \<rparr>"
    by simp
  with r t show ?thesis by blast
qed

lemma example_trim_inside:
  "trim_audio example_os [''song.wav''] ''song.wav'' ''out/trimmed/snippet_0f8fad5b.wav''
       0 15 ''wav''
     = (Inr ''out/trimmed/snippet_0f8fad5b.wav'',
        [''out/trimmed/snippet_0f8fad5b.wav'', ''song.wav''])"
  by (simp add: trim_audio_def trim_audio_try_def example_os_def Let_def)

lemma example_success:
  "\<exists>md. process_audio_snippet example_os [''song.wav''] ''song.wav'' 0 15 ''out'' False True
     = (Inr \<lparr> success = True, stem_paths = [], metadata = md, error = None \<rparr>, [''song.wav''])"
  by (simp add: process_audio_snippet_def process_audio_snippet_try_def example_validate
      example_info example_uuid example_makedirs example_trimmed_path example_trim_inside
      finish_snippet_def AudioProcessingResult_init_def
      Let_def del: take_Cons_numeral append.simps)
     (simp add: example_os_def)

theorem process_audio_snippet_result_invariant_witness:
  "(\<exists>md. process_audio_snippet example_os [''song.wav''] ''song.wav'' 0 15 ''out'' False True
      = (Inr \<lparr> success = True, stem_paths = [], metadata = md, error = None \<rparr>, [''song.wav'']))
   \<and> process_audio_snippet example_os [] ''song.wav'' 0 15 ''out'' True True
      = (Inr \<lparr> success = False, stem_paths = [], metadata = [],
               error = Some ''Validation failed: File not found: song.wav'' \<rparr>, [])"
proof -
  have f: "process_audio_snippet example_os [] ''song.wav'' 0 15 ''out'' True True
      = (Inr \<lparr> success = False, stem_paths = [], metadata = [],
               error = Some ''Validation failed: File not found: song.wav'' \<rparr>, [])"
    by (simp add: process_audio_snippet_def process_audio_snippet_try_def
        validate_audio_file_def)
       (simp add: example_os_def failure_result)
  show ?thesis
    using example_success f
      process_audio_snippet_result_invariant [OF f]
    by blast
qed

end
